theory Spec2Isabelle
  imports Complex_Main "HOL-Library.AList"
begin

section \<open>JavaScript values used by the ledger code\<close>

text \<open>
  Strings are lists of 8-bit characters: the model covers text whose code units lie in
  Latin-1 (U+0000 to U+00FF). A number \<open>Num r\<close> stands for the double nearest to the
  rational \<open>r\<close> (for \<open>r\<close> itself when it is the value of a double): products and
  sums are rounded to 53 significant bits, to the nearest value and on a tie to the
  even one, as IEEE 754 does. The exponent is not bounded, so overflow to Infinity and
  the subnormal numbers are outside the model; NaN appears only where the source tests
  for it (\<open>parseFloat(..) || 0\<close>, \<open>isNaN(parseInt(..))\<close>).
\<close>

datatype jsval =
    Undefined
  | Null
  | Num rat
  | Str string
  | Bool bool
  | Obj jsval jsval  \<comment> \<open>an object cell value: its \<open>text\<close> and \<open>result\<close> properties\<close>

text \<open>What the code throws: a \<open>TypeError\<close> of the language, the error of a failed
  download, the error of a failed token renewal, an error of the remote store with
  its HTTP status (0 when it carries none) and whether it is tagged
  \<open>expired_access_token\<close>, and the error of a file write that failed (it carries
  no \<open>status\<close> and no tag).\<close>

datatype error =
    TypeError
  | DownloadError
  | TokenError
  | ApiError nat bool
  | WriteError

text \<open>Truthiness of a value, as \<open>!valor\<close> and \<open>if (valor)\<close> read it.\<close>

fun truthy :: "jsval \<Rightarrow> bool" where
  "truthy Undefined = False"
| "truthy Null = False"
| "truthy (Num r) = (r \<noteq> 0)"
| "truthy (Str s) = (s \<noteq> [])"
| "truthy (Bool b) = b"
| "truthy (Obj t r) = True"

subsection \<open>Characters and strings\<close>

definition code :: "char \<Rightarrow> nat" where
  "code c = of_char c"

text \<open>The white space of \<open>String.prototype.trim\<close> and of the regular expression
  class \<open>\s\<close>, within Latin-1: TAB, LF, VT, FF, CR, SPACE and NO-BREAK SPACE.\<close>

definition isSpace :: "char \<Rightarrow> bool" where
  "isSpace c = (code c \<in> {9, 10, 11, 12, 13, 32, 160})"

definition trim :: "string \<Rightarrow> string" where
  "trim s = rev (dropWhile isSpace (rev (dropWhile isSpace s)))"

definition isDigit :: "char \<Rightarrow> bool" where
  "isDigit c = (48 \<le> code c \<and> code c \<le> 57)"

text \<open>\<open>toLowerCase\<close> on Latin-1: A to Z, and U+00C0 to U+00DE except the
  multiplication sign U+00D7, move up by 32.\<close>

definition lowerChar :: "char \<Rightarrow> char" where
  "lowerChar c =
     (let n = code c in
      if (65 \<le> n \<and> n \<le> 90) \<or> (192 \<le> n \<and> n \<le> 222 \<and> n \<noteq> 215)
      then char_of (n + 32) else c)"

definition toLowerCase :: "string \<Rightarrow> string" where
  "toLowerCase s = map lowerChar s"

text \<open>\<open>toUpperCase\<close> on Latin-1: a to z, and U+00E0 to U+00FE except the division
  sign U+00F7, move down by 32; the sharp s U+00DF becomes \<open>SS\<close>. The two Latin-1
  letters whose capitals lie beyond U+00FF (U+00B5 and U+00FF) are outside the model and
  are left as they are.\<close>

definition upperChar :: "char \<Rightarrow> string" where
  "upperChar c =
     (let n = code c in
      if (97 \<le> n \<and> n \<le> 122) \<or> (224 \<le> n \<and> n \<le> 254 \<and> n \<noteq> 247)
      then [char_of (n - 32)]
      else if n = 223 then ''SS'' else [c])"

definition toUpperCase :: "string \<Rightarrow> string" where
  "toUpperCase s = concat (map upperChar s)"

definition startsWith :: "string \<Rightarrow> string \<Rightarrow> bool" where
  "startsWith s p = (take (length p) s = p)"

subsection \<open>Double precision\<close>

text \<open>The number of binary digits of a natural number.\<close>

fun bits :: "nat \<Rightarrow> nat" where
  "bits n = (if n = 0 then 0 else Suc (bits (n div 2)))"

declare bits.simps [simp del]

definition pot2 :: "int \<Rightarrow> rat" where
  "pot2 e = (if 0 \<le> e then 2 ^ nat e else 1 / 2 ^ nat (- e))"

definition pot10 :: "int \<Rightarrow> rat" where
  "pot10 e = (if 0 \<le> e then 10 ^ nat e else 1 / 10 ^ nat (- e))"

text \<open>The binary exponent of a positive rational \<open>a\<close>: the \<open>e\<close> with
  \<open>2^e \<le> a < 2^(e+1)\<close>.\<close>

definition exponente2 :: "rat \<Rightarrow> int" where
  "exponente2 a =
     (if 1 \<le> a then int (bits (nat \<lfloor>a\<rfloor>)) - 1
      else (let k = int (bits (nat \<lfloor>1 / a\<rfloor>))
            in if a = pot2 (1 - k) then 1 - k else - k))"

text \<open>The integer nearest to a rational, the even one on a tie.\<close>

definition mitadPar :: "rat \<Rightarrow> int" where
  "mitadPar m =
     (let f = \<lfloor>m\<rfloor>; r = m - of_int f
      in if r < 1 / 2 then f
         else if 1 / 2 < r then f + 1
         else if even f then f else f + 1)"

text \<open>The double nearest to a rational: 53 significant bits, ties to even.\<close>

definition redondear :: "rat \<Rightarrow> rat" where
  "redondear x =
     (if x = 0 then 0
      else (let a = \<bar>x\<bar>;
                q = exponente2 a - 52;
                v = of_int (mitadPar (a / pot2 q)) * pot2 q
            in if x < 0 then - v else v))"

text \<open>\<open>valor === n\<close> for a number \<open>n\<close>: the value is a number, and the same
  double.\<close>

definition esNumero :: "jsval \<Rightarrow> rat \<Rightarrow> bool" where
  "esNumero valor n = (case valor of Num r \<Rightarrow> redondear r = redondear n | _ \<Rightarrow> False)"

text \<open>The product \<open>a * b\<close> and the sum \<open>a + b\<close> of two doubles.\<close>

definition productoDoble :: "rat \<Rightarrow> rat \<Rightarrow> rat" where
  "productoDoble a b = redondear (a * b)"

definition sumaDoble :: "rat \<Rightarrow> rat \<Rightarrow> rat" where
  "sumaDoble a b = redondear (a + b)"

subsection \<open>Numbers as text\<close>

definition digitChar :: "nat \<Rightarrow> char" where
  "digitChar d = char_of (48 + d)"

fun digitos :: "nat \<Rightarrow> string" where
  "digitos n = (if n < 10 then [digitChar n] else digitos (n div 10) @ [digitChar (n mod 10)])"

declare digitos.simps [simp del]

text \<open>The decimal exponent of a positive rational \<open>x\<close>: the \<open>e\<close> with
  \<open>10^e \<le> x < 10^(e+1)\<close>.\<close>

definition exponente10 :: "rat \<Rightarrow> int" where
  "exponente10 x =
     (if 1 \<le> x then int (length (digitos (nat \<lfloor>x\<rfloor>))) - 1
      else (let k = int (length (digitos (nat \<lfloor>1 / x\<rfloor>)))
            in if x = pot10 (1 - k) then 1 - k else - k))"

text \<open>
  \<open>Number.prototype.toString\<close> writes a positive double \<open>x\<close> with the fewest
  digits that read back as \<open>x\<close>: integers \<open>s\<close>, \<open>k\<close> and \<open>n\<close> with \<open>s\<close> of
  \<open>k\<close> digits, \<open>s * 10^(n-k)\<close> rounding to \<open>x\<close>, and \<open>k\<close> as small as can be.
  \<open>probarDigitos\<close> tries one \<open>k\<close>: the integer nearest to \<open>x / 10^(n-k)\<close> and
  its two neighbours. Seventeen digits always read back.
\<close>

definition probarDigitos :: "rat \<Rightarrow> int \<Rightarrow> nat \<Rightarrow> (int \<times> nat \<times> int) option" where
  "probarDigitos x n0 k =
     (let escala = pot10 (n0 - int k);
          t = x / escala
      in case find (\<lambda>c. 1 \<le> c \<and> redondear (of_int c * escala) = x)
                   [mitadPar t, \<lfloor>t\<rfloor>, \<lfloor>t\<rfloor> + 1] of
           None \<Rightarrow> None
         | Some c \<Rightarrow> if c = 10 ^ k then Some (1, 1, n0 + 1) else Some (c, k, n0))"

fun primerExito :: "(nat \<Rightarrow> 'a option) \<Rightarrow> nat list \<Rightarrow> 'a option" where
  "primerExito f [] = None"
| "primerExito f (k # ks) = (case f k of None \<Rightarrow> primerExito f ks | Some r \<Rightarrow> Some r)"

definition digitosCortos :: "rat \<Rightarrow> int \<times> nat \<times> int" where
  "digitosCortos x =
     (let n0 = exponente10 x + 1
      in case primerExito (probarDigitos x n0)
                [1, 2, 3, 4, 5, 6, 7, 8, 9, 10, 11, 12, 13, 14, 15, 16, 17] of
           None \<Rightarrow> (mitadPar (x / pot10 (n0 - 17)), 17, n0)
         | Some r \<Rightarrow> r)"

text \<open>The text of a positive double: plain digits when \<open>-5 \<le> n \<le> 21\<close> (from
  \<open>0.000001\<close> up to, but not including, \<open>10^21\<close>), and the exponent form otherwise.\<close>

definition textoPositivo :: "rat \<Rightarrow> string" where
  "textoPositivo x =
     (case digitosCortos x of
        (s, k, n) \<Rightarrow>
          (let ds = digitos (nat s) in
           if - 5 \<le> n \<and> n \<le> 21
           then (if int k \<le> n then ds @ replicate (nat (n - int k)) (CHR ''0'')
                 else if 0 < n then take (nat n) ds @ ''.'' @ drop (nat n) ds
                 else ''0.'' @ replicate (nat (- n)) (CHR ''0'') @ ds)
           else (if k = 1 then ds else take 1 ds @ ''.'' @ drop 1 ds) @ ''e'' @
                (if n - 1 < 0 then ''-'' else ''+'') @ digitos (nat \<bar>n - 1\<bar>)))"

text \<open>\<open>Number.prototype.toString\<close>, of the double that \<open>r\<close> stands for.\<close>

definition numToString :: "rat \<Rightarrow> string" where
  "numToString r =
     (let x = redondear r in
      if x = 0 then ''0''
      else (if x < 0 then ''-'' else '''') @ textoPositivo \<bar>x\<bar>)"

text \<open>\<open>valor.toString()\<close>. The source calls it on truthy values only (or behind
  \<open>?.\<close>), so the two nullish cases are never reached; they are given the text of
  \<open>String(valor)\<close>.\<close>

fun jsToString :: "jsval \<Rightarrow> string" where
  "jsToString Undefined = ''undefined''"
| "jsToString Null = ''null''"
| "jsToString (Num r) = numToString r"
| "jsToString (Str s) = s"
| "jsToString (Bool b) = (if b then ''true'' else ''false'')"
| "jsToString (Obj t r) = ''[object Object]''"

text \<open>\<open>x.toFixed(2)\<close>, of the exact value \<open>x\<close> of a double: the sign, then the
  integer \<open>n\<close> nearest to \<open>100 x\<close> (the larger one on a tie) written with at least
  three digits and a point before the last two. (Numbers from \<open>10^21\<close> on, which
  \<open>toFixed\<close> writes in exponent form, are not amounts of this ledger.)\<close>

definition toFixed2 :: "rat \<Rightarrow> string" where
  "toFixed2 x =
     (let a = \<bar>x\<bar>; n = nat \<lfloor>a * 100 + 1 / 2\<rfloor>;
          ds = digitos n;
          padded = replicate (3 - length ds) (CHR ''0'') @ ds
      in (if x < 0 then ''-'' else '''') @
         take (length padded - 2) padded @ ''.'' @ drop (length padded - 2) padded)"

subsection \<open>Local time\<close>

text \<open>
  A \<open>Date\<close> read through its local-time fields: \<open>getFullYear\<close>, \<open>getMonth\<close>
  (0 to 11), \<open>getDate\<close> and the milliseconds since local midnight. Two dates are
  compared by their time values; with a constant offset to UTC that is the
  lexicographic order of these fields.
\<close>

record fecha =
  getFullYear :: int
  getMonth :: nat
  getDate :: nat
  msDelDia :: nat

text \<open>\<open>new Date(y, m, d)\<close>: a month index from 12 on carries into the year.\<close>

definition newDate :: "int \<Rightarrow> nat \<Rightarrow> nat \<Rightarrow> fecha" where
  "newDate y m d =
     \<lparr>getFullYear = y + int (m div 12), getMonth = m mod 12, getDate = d, msDelDia = 0\<rparr>"

definition posterior :: "fecha \<Rightarrow> fecha \<Rightarrow> bool" where
  "posterior a b =
     (getFullYear a > getFullYear b \<or>
      (getFullYear a = getFullYear b \<and>
       (getMonth a > getMonth b \<or>
        (getMonth a = getMonth b \<and>
         (getDate a > getDate b \<or>
          (getDate a = getDate b \<and> msDelDia a > msDelDia b))))))"

section \<open>The student record and the debt calculation\<close>

text \<open>
  \<open>columnas\<close> comes from the configuration module, which is not part of the sources
  at hand: it is a parameter of the model. \<open>MESES\<close> lists its keys in the order of
  \<open>Object.keys\<close>, each with the column letter it names.
\<close>

record columnas =
  ID :: string
  NOMBRE :: string
  GRADO :: string
  TOTAL_PAGAR :: string
  MESES :: "(string \<times> string) list"

record estudiante =
  nombre :: jsval
  grado :: jsval
  ident :: string
  planDePago :: jsval
  meses :: "(string \<times> jsval) list"
  totalPagar :: jsval
  valorCeldaOriginal :: jsval

record deuda =
  deudaMensualidad :: string
  deudaMora :: string
  totalDeuda :: string
  mesesPendientes :: "string list"
  cuotaMensual :: string
  alDia :: bool

text \<open>Reading a property of the \<open>meses\<close> object: a missing key reads \<open>undefined\<close>.\<close>

definition leer :: "(string \<times> jsval) list \<Rightarrow> string \<Rightarrow> jsval" where
  "leer obj k = (case map_of obj k of None \<Rightarrow> Undefined | Some v \<Rightarrow> v)"

text \<open>The months of the configuration with their numbers:
  \<open>Object.keys(columnas.MESES).map((mes, index) => ({nombre, num: index + 1}))\<close>.\<close>

definition mesesNumerados :: "columnas \<Rightarrow> (string \<times> nat) list" where
  "mesesNumerados cols =
     map (\<lambda>(mes, index). (toLowerCase mes, index + 1))
         (zip (map fst (MESES cols)) [0 ..< length (MESES cols)])"

text \<open>\<open>estudiante.planDePago === 10 ? 2 : 1\<close>.\<close>

definition inicioMes :: "estudiante \<Rightarrow> nat" where
  "inicioMes e = (if esNumero (planDePago e) 10 then 2 else 1)"

text \<open>The second filter of \<open>mesesPendientes\<close>:
  \<open>!valor || valor.toString().trim() === ''\<close>.\<close>

definition enBlanco :: "jsval \<Rightarrow> bool" where
  "enBlanco valor = (\<not> truthy valor \<or> trim (jsToString valor) = [])"

definition pendientes :: "columnas \<Rightarrow> fecha \<Rightarrow> estudiante \<Rightarrow> (string \<times> nat) list" where
  "pendientes cols ahora e =
     (let mesActual = getMonth ahora + 1 in
      filter (\<lambda>m. enBlanco (leer (meses e) (fst m)))
        (filter (\<lambda>m. snd m \<ge> inicioMes e \<and> snd m \<le> mesActual) (mesesNumerados cols)))"

text \<open>The due date of a pending month, as the body of the \<open>forEach\<close> builds it.\<close>

definition fechaVencimiento :: "fecha \<Rightarrow> nat \<Rightarrow> fecha" where
  "fechaVencimiento ahora mesNum =
     (let mesActual = getMonth ahora + 1;
          anioActual = getFullYear ahora;
          anioMes = (if mesNum = 12 \<and> mesActual = 1 then anioActual - 1 else anioActual)
      in newDate anioMes mesNum 11)"

text \<open>The double that the literal \<open>0.05\<close> denotes.\<close>

definition cincoPorCiento :: rat where
  "cincoPorCiento = redondear (5 / 100)"

text \<open>One round of the \<open>forEach\<close>: the late fee accumulated so far, and the month;
  \<open>deudaMora += cuotaMensual * 0.05\<close> is a product and a sum of doubles.\<close>

definition acumularMora :: "fecha \<Rightarrow> rat \<Rightarrow> rat \<Rightarrow> (string \<times> nat) \<Rightarrow> rat" where
  "acumularMora ahora cuota mora mesPendiente =
     (if posterior ahora (fechaVencimiento ahora (snd mesPendiente))
      then sumaDoble mora (productoDoble cuota cincoPorCiento) else mora)"

text \<open>
  \<open>calcularDeuda\<close>. The clock (\<open>new Date()\<close>) is the parameter \<open>ahora\<close>. The
  arithmetic of the source never throws, but \<open>cuotaMensual.toFixed(2)\<close> does when
  the monthly amount is not a number: that is the \<open>TypeError\<close> branch. For a
  number, \<open>cuota\<close> is the double it stands for, the amounts are computed in
  doubles, and \<open>toFixed(2)\<close> rounds the exact value of each result.
\<close>

definition calcularDeuda :: "columnas \<Rightarrow> fecha \<Rightarrow> estudiante \<Rightarrow> error + deuda" where
  "calcularDeuda cols ahora e =
     (let pend = pendientes cols ahora e in
      case totalPagar e of
        Num r \<Rightarrow>
          (let cuota = redondear r;
               mora = foldl (acumularMora ahora cuota) 0 pend;
               mensualidad = productoDoble cuota (of_nat (length pend));
               total = sumaDoble mensualidad mora
           in Inr \<lparr>deudaMensualidad = toFixed2 mensualidad,
                   deudaMora = toFixed2 mora,
                   totalDeuda = toFixed2 total,
                   mesesPendientes = map (\<lambda>m. toUpperCase (fst m)) pend,
                   cuotaMensual = toFixed2 cuota,
                   alDia = (length pend = 0)\<rparr>)
      | _ \<Rightarrow> Inl TypeError)"

section \<open>The ledger parser\<close>

text \<open>
  A worksheet row is the list of its cells by column; a cell that is not there reads
  \<open>null\<close>, as \<open>row.getCell(col).value\<close> does. A worksheet is the list of its rows
  with their row numbers, in the order \<open>eachRow\<close> visits them. A workbook is the list
  of its worksheets with their names.
\<close>

type_synonym fila = "(string \<times> jsval) list"
type_synonym hoja = "(nat \<times> fila) list"

record workbook =
  worksheets :: "(string \<times> hoja) list"

definition celda :: "fila \<Rightarrow> string \<Rightarrow> jsval" where
  "celda row col = (case map_of row col of None \<Rightarrow> Null | Some v \<Rightarrow> v)"

text \<open>\<open>s.replace(p, '')\<close> with a string pattern: the first occurrence goes.\<close>

fun quitarPrimero :: "string \<Rightarrow> string \<Rightarrow> string" where
  "quitarPrimero p [] = []"
| "quitarPrimero p (c # cs) =
     (if startsWith (c # cs) p then drop (length p) (c # cs) else c # quitarPrimero p cs)"

definition valorDigitos :: "string \<Rightarrow> nat" where
  "valorDigitos ds = foldl (\<lambda>acc c. acc * 10 + (code c - 48)) 0 ds"

text \<open>An optional sign in front of a numeral: whether it is negative, and the rest.\<close>

definition signo :: "string \<Rightarrow> bool \<times> string" where
  "signo s =
     (case s of
        c # cs \<Rightarrow> if c = CHR ''-'' then (True, cs)
                  else if c = CHR ''+'' then (False, cs) else (False, s)
      | [] \<Rightarrow> (False, s))"

text \<open>The exponent part of a decimal literal, when the text starts with a complete one
  (\<open>e\<close> or \<open>E\<close>, an optional sign, at least one digit).\<close>

definition exponente :: "string \<Rightarrow> (bool \<times> nat) option" where
  "exponente s =
     (case s of
        c # cs \<Rightarrow>
          if c = CHR ''e'' \<or> c = CHR ''E''
          then (let (neg, r) = signo cs; ds = takeWhile isDigit r
                in if ds = [] then None else Some (neg, valorDigitos ds))
          else None
      | [] \<Rightarrow> None)"

text \<open>
  \<open>parseFloat\<close>: leading white space, an optional sign, then the longest prefix that
  is a decimal literal; \<open>None\<close> stands for NaN. The literal \<open>Infinity\<close> is outside
  the model (it is read as NaN here).
\<close>

definition parseFloat :: "string \<Rightarrow> rat option" where
  "parseFloat s =
     (let (neg, s2) = signo (dropWhile isSpace s);
          ent = takeWhile isDigit s2;
          r1 = dropWhile isDigit s2;
          conPunto = (r1 \<noteq> [] \<and> hd r1 = CHR ''.'');
          dec = (if conPunto then takeWhile isDigit (tl r1) else []);
          r2 = (if conPunto then dropWhile isDigit (tl r1) else r1);
          mantisa = of_nat (valorDigitos ent) + of_nat (valorDigitos dec) / 10 ^ length dec;
          escala = (case exponente r2 of
                      None \<Rightarrow> mantisa
                    | Some (negE, n) \<Rightarrow> if negE then mantisa / 10 ^ n else mantisa * 10 ^ n)
      in if ent = [] \<and> dec = [] then None
         else Some (if neg then - escala else escala))"

text \<open>\<open>parseFloat(s) || 0\<close>.\<close>

definition parseFloatO0 :: "string \<Rightarrow> rat" where
  "parseFloatO0 s = (case parseFloat s of None \<Rightarrow> 0 | Some r \<Rightarrow> r)"

text \<open>\<open>s.replace(/[^0-9.]/g, '')\<close>.\<close>

definition soloNumero :: "string \<Rightarrow> string" where
  "soloNumero s = filter (\<lambda>c. isDigit c \<or> c = CHR ''.'') s"

text \<open>
  The monthly amount read from the cell \<open>valorCelda\<close>: a number as it is, a string
  through \<open>parseFloat\<close>, an object through its \<open>text\<close> or its \<open>result\<close>. A truthy
  \<open>text\<close> that is not a string has no \<open>replace\<close> method: the call throws. The
  second \<open>if\<close> of the source reads a string with a comma again, without the currency
  mark.
\<close>

definition leerTotalPagar :: "jsval \<Rightarrow> error + jsval" where
  "leerTotalPagar valorCelda =
     (let primero =
        (case valorCelda of
           Num r \<Rightarrow> Inr (Num r)
         | Str s \<Rightarrow> Inr (Num (parseFloatO0 (soloNumero s)))
         | Obj t r \<Rightarrow>
             (if truthy t
              then (case t of Str s \<Rightarrow> Inr (Num (parseFloatO0 (soloNumero s)))
                    | _ \<Rightarrow> Inl TypeError)
              else if truthy r then Inr r else Inr (Num 0))
         | _ \<Rightarrow> Inr (Num 0))
      in case primero of
           Inl err \<Rightarrow> Inl err
         | Inr monto \<Rightarrow>
             (case valorCelda of
                Str s \<Rightarrow>
                  if s \<noteq> [] \<and> CHR '','' \<in> set s
                  then Inr (Num (parseFloatO0
                         (quitarPrimero '',''
                           (filter (\<lambda>c. \<not> isSpace c)
                             (quitarPrimero ''L'' (quitarPrimero ''L.'' s))))))
                  else Inr monto
              | _ \<Rightarrow> Inr monto))"

text \<open>The \<open>meses\<close> object of a student: one property per configured month, under its
  lower-case name; a name that comes twice keeps its place and takes the later cell.\<close>

definition leerMeses :: "columnas \<Rightarrow> fila \<Rightarrow> (string \<times> jsval) list" where
  "leerMeses cols row =
     foldl (\<lambda>acc (mes, col). AList.update (toLowerCase mes) (celda row col) acc) [] (MESES cols)"

definition construirEstudiante :: "columnas \<Rightarrow> string \<Rightarrow> fila \<Rightarrow> error + estudiante" where
  "construirEstudiante cols ident' row =
     (let valorCelda = celda row (TOTAL_PAGAR cols) in
      case leerTotalPagar valorCelda of
        Inl err \<Rightarrow> Inl err
      | Inr monto \<Rightarrow>
          Inr \<lparr>nombre = celda row (NOMBRE cols),
               grado = celda row (GRADO cols),
               ident = ident',
               planDePago = celda row ''H'',
               meses = leerMeses cols row,
               totalPagar = monto,
               valorCeldaOriginal = valorCelda\<rparr>)"

text \<open>\<open>row.getCell(columnas.ID).value?.toString() === id\<close>.\<close>

definition coincide :: "columnas \<Rightarrow> string \<Rightarrow> fila \<Rightarrow> bool" where
  "coincide cols ident' row =
     (case celda row (ID cols) of
        Undefined \<Rightarrow> False
      | Null \<Rightarrow> False
      | v \<Rightarrow> jsToString v = ident')"

text \<open>The callback of \<open>eachRow\<close>, on the student found so far. An error thrown by the
  callback ends the scan.\<close>

definition visitarFila ::
  "columnas \<Rightarrow> string \<Rightarrow> error + estudiante option \<Rightarrow> nat \<times> fila \<Rightarrow> error + estudiante option" where
  "visitarFila cols ident' acc fila =
     (case acc of
        Inl err \<Rightarrow> Inl err
      | Inr encontrado \<Rightarrow>
          if fst fila < 3 then Inr encontrado
          else if coincide cols ident' (snd fila)
          then (case construirEstudiante cols ident' (snd fila) of
                  Inl err \<Rightarrow> Inl err
                | Inr e \<Rightarrow> Inr (Some e))
          else Inr encontrado)"

text \<open>The worksheet: the one named \<open>Matricula 2025\<close>, or else the sixth; reading the
  name of a sixth worksheet that is not there throws.\<close>

definition elegirHoja :: "workbook \<Rightarrow> error + hoja" where
  "elegirHoja wb =
     (case find (\<lambda>ws. fst ws = ''Matricula 2025'') (worksheets wb) of
        Some ws \<Rightarrow> Inr (snd ws)
      | None \<Rightarrow>
          if 5 < length (worksheets wb) then Inr (snd (worksheets wb ! 5))
          else Inl TypeError)"

text \<open>
  \<open>buscarEstudiante\<close>. The outcome of \<open>await getWorkbook()\<close> is the parameter
  \<open>libro\<close>: the workbook, or the error the download or the parser threw. The
  \<open>catch\<close> of the source logs the error and throws it again, so an error is the
  result.
\<close>

definition buscarEstudiante ::
  "columnas \<Rightarrow> error + workbook \<Rightarrow> string \<Rightarrow> error + estudiante option" where
  "buscarEstudiante cols libro ident' =
     (case libro of
        Inl err \<Rightarrow> Inl err
      | Inr wb \<Rightarrow>
          (case elegirHoja wb of
             Inl err \<Rightarrow> Inl err
           | Inr h \<Rightarrow> foldl (visitarFila cols ident') (Inr None) h))"

section \<open>The conversation\<close>

subsection \<open>Conversation state, messages and the world\<close>

text \<open>
  The state names that \<open>procesarMensaje\<close> switches on; any other stored value is
  \<open>OTRO_ESTADO\<close> and takes the \<open>default\<close> branch. The auxiliary data of a state
  are the two properties the code reads from \<open>estado.datos\<close>.
\<close>

datatype estadoConv =
    MENU_PRINCIPAL
  | REGISTRO_ID
  | REGISTRO_PIN
  | SELECCION_ALUMNO
  | ELIMINAR_ALUMNO
  | MENU_ADMIN_BROADCAST
  | OTRO_ESTADO

record datosEstado =
  idEstudiante :: "string option"
  alumnos :: "string list option"

record estadoUsuario =
  estado :: estadoConv
  datos :: datosEstado

definition sinDatos :: datosEstado where
  "sinDatos = \<lparr>idEstudiante = None, alumnos = None\<rparr>"

text \<open>
  The content of an inbound message (\<open>msg.message\<close>), by the key that
  \<open>enviarBroadcast\<close> and the \<open>messages.upsert\<close> handler look for. An extended text
  message may quote another message.
\<close>

datatype contenido =
    Conversacion string
  | TextoExtendido string "contenido option"
  | Imagen
  | Video
  | Audio
  | Documento
  | Sticker
  | NoSoportado

text \<open>
  What the bot sends. The texts of the source are fixed templates (with emoji, which lie
  outside the strings of this model); each template is a constructor that carries the
  values the template is filled with.
\<close>

datatype salida =
    Saludo
  | Menu nat bool  \<comment> \<open>the number of linked students; whether the admin option shows\<close>
  | PermisoDenegado
  | BroadcastEnviado nat
  | TextoDifundido string
  | MedioDifundido contenido
  | PedirIdentidad
  | MenuBroadcast
  | OpcionNoValida
  | SinAlumnos
  | AlumnoSinInformacion
  | ListaAlumnos "(jsval \<times> jsval) list"
  | InfoEscuela
  | Contacto
  | SinAlumnosParaEliminar
  | ListaEliminar "(jsval \<times> jsval) list"
  | OpcionNoValidaDelMenu
  | IdentidadEncontrada jsval
  | IdentidadNoRegistrada
  | FormatoIncorrecto
  | RegistroExitoso jsval
  | PinIncorrecto
  | SeleccionNoValida
  | SeleccionSinInformacion
  | AlumnoEliminado jsval
  | ErrorAlEliminar
  | SinInformacion
  | EstadoPagos estudiante deuda

text \<open>
  The world a message is handled in: the stores of the services, the messages sent so
  far (in order), the menu renders scheduled with \<open>setTimeout\<close>, and the errors
  written with \<open>console.error\<close>.
\<close>

record mundo =
  estados :: "string \<rightharpoonup> estadoUsuario"
  saludos :: "string \<rightharpoonup> string"
  encargados :: "(string \<times> string list) list"
  administradores :: "string list"
  pines :: "string \<rightharpoonup> string"
  enviados :: "(string \<times> salida) list"
  programados :: "string list"
  registro :: "error list"

text \<open>What a message is handled with: today's date as \<open>toISOString().slice(0, 10)\<close>
  gives it, the clock, the outcome of \<open>getWorkbook\<close>, the column configuration, and
  whether a media download for a broadcast succeeds.\<close>

record entorno =
  fechaHoy :: string
  reloj :: fecha
  libroExcel :: "error + workbook"
  configuracion :: columnas
  medioDescargable :: bool

subsection \<open>The services\<close>

text \<open>Modelled from the spec: \<open>stateService\<close> (\<open>obtenerEstado\<close>,
  \<open>establecerEstado\<close>, \<open>obtenerUltimoSaludo\<close>, \<open>establecerUltimoSaludo\<close>) is not
  among the sources. One conversation state per user identity, created on first contact
  in the initial state, replaced on every transition; the date of the last greeting is
  kept beside it.\<close>

definition obtenerEstado :: "mundo \<Rightarrow> string \<Rightarrow> estadoUsuario" where
  "obtenerEstado w u =
     (case estados w u of
        None \<Rightarrow> \<lparr>estado = MENU_PRINCIPAL, datos = sinDatos\<rparr>
      | Some s \<Rightarrow> s)"

definition establecerEstado :: "string \<Rightarrow> estadoConv \<Rightarrow> datosEstado \<Rightarrow> mundo \<Rightarrow> mundo" where
  "establecerEstado u s d w = w\<lparr>estados := (estados w)(u \<mapsto> \<lparr>estado = s, datos = d\<rparr>)\<rparr>"

definition obtenerUltimoSaludo :: "mundo \<Rightarrow> string \<Rightarrow> string option" where
  "obtenerUltimoSaludo w u = saludos w u"

definition establecerUltimoSaludo :: "string \<Rightarrow> string \<Rightarrow> mundo \<Rightarrow> mundo" where
  "establecerUltimoSaludo u d w = w\<lparr>saludos := (saludos w)(u \<mapsto> d)\<rparr>"

text \<open>Modelled from the spec: \<open>encargadoService\<close> (\<open>obtenerAlumnosEncargado\<close>,
  \<open>registrarEncargado\<close>, \<open>eliminarRelacion\<close>) is not among the sources. The links
  between a user and student identity numbers: created by a registration, removable by
  the user who owns them; \<open>eliminarRelacion\<close> tells whether there was a link to
  remove.\<close>

definition obtenerAlumnosEncargado :: "mundo \<Rightarrow> string \<Rightarrow> string list" where
  "obtenerAlumnosEncargado w u = (case map_of (encargados w) u of None \<Rightarrow> [] | Some l \<Rightarrow> l)"

definition registrarEncargado :: "string \<Rightarrow> string \<Rightarrow> mundo \<Rightarrow> mundo" where
  "registrarEncargado u i w =
     (let l = obtenerAlumnosEncargado w u in
      w\<lparr>encargados := AList.update u (if i \<in> set l then l else l @ [i]) (encargados w)\<rparr>)"

definition eliminarRelacion :: "string \<Rightarrow> string \<Rightarrow> mundo \<Rightarrow> bool \<times> mundo" where
  "eliminarRelacion u i w =
     (let l = obtenerAlumnosEncargado w u in
      if i \<in> set l
      then (True, w\<lparr>encargados := AList.update u (removeAll i l) (encargados w)\<rparr>)
      else (False, w))"

text \<open>Modelled from the spec: \<open>pinService\<close> (\<open>validarPIN\<close>) and \<open>adminService\<close>
  (\<open>isAdmin\<close>) are not among the sources. A PIN is the secret bound to an identity
  number; an administrator is a user with the elevated privilege.\<close>

definition validarPIN :: "mundo \<Rightarrow> string option \<Rightarrow> string \<Rightarrow> bool" where
  "validarPIN w i pin = (case i of None \<Rightarrow> False | Some i' \<Rightarrow> pines w i' = Some pin)"

definition isAdmin :: "mundo \<Rightarrow> string \<Rightarrow> bool" where
  "isAdmin w u = (u \<in> set (administradores w))"

subsection \<open>Sending\<close>

text \<open>\<open>bot.sendMessage\<close> and \<open>enviarMensajeConDelay\<close> (which waits, then sends):
  the message joins the messages sent. A failing channel is not modelled.\<close>

definition enviar :: "string \<Rightarrow> salida \<Rightarrow> mundo \<Rightarrow> mundo" where
  "enviar u m w = w\<lparr>enviados := enviados w @ [(u, m)]\<rparr>"

text \<open>\<open>setTimeout(() => enviarMenuPrincipal(bot, remitente), 1500)\<close>.\<close>

definition programarMenu :: "string \<Rightarrow> mundo \<Rightarrow> mundo" where
  "programarMenu u w = w\<lparr>programados := programados w @ [u]\<rparr>"

definition enviarMenuPrincipal :: "string \<Rightarrow> mundo \<Rightarrow> mundo" where
  "enviarMenuPrincipal u w =
     (let n = length (obtenerAlumnosEncargado w u) in
      enviar u (Menu n (isAdmin w u)) (establecerEstado u MENU_PRINCIPAL sinDatos w))"

text \<open>
  \<open>enviarBroadcast\<close>: every key of the guardians' store gets the message, and the
  number of messages sent is returned. A text goes as it is. Of a message object, the
  quoted message is taken when it is an extended text with a quote; then a conversation
  or an extended text with a non-empty text goes as text, a media message goes as media
  when its download succeeds (a failed download is caught per recipient and not
  counted), and anything else is skipped.
\<close>

definition difundir :: "salida \<Rightarrow> mundo \<Rightarrow> nat \<times> mundo" where
  "difundir m w =
     (let destinatarios = map fst (encargados w) in
      (length destinatarios, foldl (\<lambda>w' d. enviar d m w') w destinatarios))"

definition enviarBroadcastTexto :: "string \<Rightarrow> mundo \<Rightarrow> nat \<times> mundo" where
  "enviarBroadcastTexto t w = difundir (TextoDifundido t) w"

definition enviarBroadcastObjeto :: "entorno \<Rightarrow> contenido \<Rightarrow> mundo \<Rightarrow> nat \<times> mundo" where
  "enviarBroadcastObjeto env mensaje w =
     (let msgContent = (case mensaje of TextoExtendido t (Some q) \<Rightarrow> q | _ \<Rightarrow> mensaje) in
      case msgContent of
        Conversacion t \<Rightarrow> if t \<noteq> [] then difundir (TextoDifundido t) w else (0, w)
      | TextoExtendido t q \<Rightarrow> if t \<noteq> [] then difundir (TextoDifundido t) w else (0, w)
      | NoSoportado \<Rightarrow> (0, w)
      | medio \<Rightarrow> if medioDescargable env then difundir (MedioDifundido medio) w else (0, w))"

text \<open>
  \<open>enviarEstadoPagos\<close>. A student without a name gets the "no information" text.
  Otherwise the debt is computed (which throws on a monthly amount that is not a number)
  and the name is put in upper case (which throws on a name that is not a string).
\<close>

definition enviarEstadoPagos ::
  "entorno \<Rightarrow> string \<Rightarrow> estudiante option \<Rightarrow> mundo \<Rightarrow> error option \<times> mundo" where
  "enviarEstadoPagos env u est w =
     (case est of
        None \<Rightarrow> (None, enviar u SinInformacion w)
      | Some e \<Rightarrow>
          if \<not> truthy (nombre e) then (None, enviar u SinInformacion w)
          else (case calcularDeuda (configuracion env) (reloj env) e of
                  Inl err \<Rightarrow> (Some err, w)
                | Inr d \<Rightarrow>
                    (case nombre e of
                       Str n \<Rightarrow> (None, enviar u (EstadoPagos e d) w)
                     | _ \<Rightarrow> (Some TypeError, w))))"

subsection \<open>Looking students up\<close>

text \<open>A call of \<open>buscarEstudiante\<close> from the conversation: an error is written to the
  console by its \<open>catch\<close> before it is thrown again.\<close>

definition buscar :: "entorno \<Rightarrow> string \<Rightarrow> mundo \<Rightarrow> (error + estudiante option) \<times> mundo" where
  "buscar env i w =
     (case buscarEstudiante (configuracion env) (libroExcel env) i of
        Inl err \<Rightarrow> (Inl err, w\<lparr>registro := registro w @ [err]\<rparr>)
      | Inr r \<Rightarrow> (Inr r, w))"

text \<open>The loop that builds the numbered list of a user's students: the students that
  are found, by name and grade, in the order of the links.\<close>

fun listarAlumnos ::
  "entorno \<Rightarrow> string list \<Rightarrow> (jsval \<times> jsval) list \<Rightarrow> mundo \<Rightarrow>
     (error + (jsval \<times> jsval) list) \<times> mundo" where
  "listarAlumnos env [] acc w = (Inr acc, w)"
| "listarAlumnos env (i # rest) acc w =
     (case buscar env i w of
        (Inl err, w') \<Rightarrow> (Inl err, w')
      | (Inr None, w') \<Rightarrow> listarAlumnos env rest acc w'
      | (Inr (Some e), w') \<Rightarrow> listarAlumnos env rest (acc @ [(nombre e, grado e)]) w')"

subsection \<open>Reading the text of a message\<close>

text \<open>\<open>/^\d{13}$/.test(mensaje)\<close>.\<close>

definition esIdentidad :: "string \<Rightarrow> bool" where
  "esIdentidad s = (length s = 13 \<and> list_all isDigit s)"

text \<open>\<open>parseInt(s, 10)\<close>: leading white space, an optional sign, then the digits in
  front; \<open>None\<close> stands for NaN.\<close>

definition parseInt10 :: "string \<Rightarrow> int option" where
  "parseInt10 s =
     (let (neg, r) = signo (dropWhile isSpace s); ds = takeWhile isDigit r
      in if ds = [] then None
         else Some (if neg then - int (valorDigitos ds) else int (valorDigitos ds)))"

text \<open>The test of the two selection states,
  \<open>isNaN(indice) || indice < 0 || indice >= estado.datos.alumnos.length\<close>, with
  \<open>indice = parseInt(mensaje, 10) - 1\<close>, and the read \<open>estado.datos.alumnos[indice]\<close>
  that follows it: the identity number chosen, \<open>None\<close> when the test sends the user
  back to the list, or the \<open>TypeError\<close> of reading the length of a list that the state
  does not carry.\<close>

definition elegirAlumno :: "estadoUsuario \<Rightarrow> string \<Rightarrow> error + string option" where
  "elegirAlumno est mensaje =
     (case parseInt10 mensaje of
        None \<Rightarrow> Inr None
      | Some n \<Rightarrow>
          if n - 1 < 0 then Inr None
          else (case alumnos (datos est) of
                  None \<Rightarrow> Inl TypeError
                | Some l \<Rightarrow>
                    if n - 1 \<ge> int (length l) then Inr None else Inr (Some (l ! nat (n - 1)))))"

subsection \<open>The branches of \<open>procesarMensaje\<close>\<close>

text \<open>State \<open>MENU_PRINCIPAL\<close>: the inner \<open>switch (mensaje)\<close>. The flag
  \<open>esPrimerMensajeDelDia\<close> is passed as the source reads it in the \<open>default\<close>
  branch.\<close>

definition enMenuPrincipal ::
  "entorno \<Rightarrow> string \<Rightarrow> string \<Rightarrow> bool \<Rightarrow> mundo \<Rightarrow> error option \<times> mundo" where
  "enMenuPrincipal env u mensaje esPrimerMensajeDelDia w =
     (let losAlumnos = obtenerAlumnosEncargado w u in
      if mensaje = ''1'' then
        (None, enviar u PedirIdentidad (establecerEstado u REGISTRO_ID sinDatos w))
      else if mensaje = ''6'' then
        (if isAdmin w u
         then (None, enviar u MenuBroadcast (establecerEstado u MENU_ADMIN_BROADCAST sinDatos w))
         else (None, enviarMenuPrincipal u (enviar u OpcionNoValida w)))
      else if mensaje = ''2'' then
        (if length losAlumnos = 0
         then (None, enviarMenuPrincipal u (enviar u SinAlumnos w))
         else if length losAlumnos = 1
         then (case buscar env (losAlumnos ! 0) w of
                 (Inl err, w1) \<Rightarrow> (Some err, w1)
               | (Inr (Some e), w1) \<Rightarrow>
                   (case enviarEstadoPagos env u (Some e) w1 of
                      (Some err, w2) \<Rightarrow> (Some err, w2)
                    | (None, w2) \<Rightarrow> (None, enviarMenuPrincipal u w2))
               | (Inr None, w1) \<Rightarrow>
                   (None, enviarMenuPrincipal u (enviar u AlumnoSinInformacion w1)))
         else (case listarAlumnos env losAlumnos [] w of
                 (Inl err, w1) \<Rightarrow> (Some err, w1)
               | (Inr lista, w1) \<Rightarrow>
                   (None, enviar u (ListaAlumnos lista)
                            (establecerEstado u SELECCION_ALUMNO
                               \<lparr>idEstudiante = None, alumnos = Some losAlumnos\<rparr> w1))))
      else if mensaje = ''3'' then (None, enviar u InfoEscuela w)
      else if mensaje = ''4'' then (None, enviar u Contacto w)
      else if mensaje = ''5'' then
        (if length losAlumnos = 0
         then (None, enviarMenuPrincipal u (enviar u SinAlumnosParaEliminar w))
         else (case listarAlumnos env losAlumnos [] w of
                 (Inl err, w1) \<Rightarrow> (Some err, w1)
               | (Inr lista, w1) \<Rightarrow>
                   (None, enviar u (ListaEliminar lista)
                            (establecerEstado u ELIMINAR_ALUMNO
                               \<lparr>idEstudiante = None, alumnos = Some losAlumnos\<rparr> w1))))
      else (None, enviarMenuPrincipal u
                    (if \<not> esPrimerMensajeDelDia then enviar u OpcionNoValidaDelMenu w else w)))"

text \<open>State \<open>REGISTRO_ID\<close>.\<close>

definition enRegistroId :: "entorno \<Rightarrow> string \<Rightarrow> string \<Rightarrow> mundo \<Rightarrow> error option \<times> mundo" where
  "enRegistroId env u mensaje w =
     (if esIdentidad mensaje
      then (case buscar env mensaje w of
              (Inl err, w1) \<Rightarrow> (Some err, w1)
            | (Inr (Some e), w1) \<Rightarrow>
                (None, enviar u (IdentidadEncontrada (nombre e))
                         (establecerEstado u REGISTRO_PIN
                            \<lparr>idEstudiante = Some mensaje, alumnos = None\<rparr> w1))
            | (Inr None, w1) \<Rightarrow> (None, enviar u IdentidadNoRegistrada w1))
      else (None, enviar u FormatoIncorrecto w))"

text \<open>State \<open>REGISTRO_PIN\<close>. After a valid PIN the link is registered, the student is
  looked up again, and the text reads the name of the student: of \<open>null\<close> when the
  lookup found nobody, which throws.\<close>

definition enRegistroPin ::
  "entorno \<Rightarrow> string \<Rightarrow> string \<Rightarrow> estadoUsuario \<Rightarrow> mundo \<Rightarrow> error option \<times> mundo" where
  "enRegistroPin env u mensaje est w =
     (if validarPIN w (idEstudiante (datos est)) mensaje
      then (case idEstudiante (datos est) of
              None \<Rightarrow> (None, enviar u PinIncorrecto w)
            | Some i \<Rightarrow>
                (case buscar env i (registrarEncargado u i w) of
                   (Inl err, w1) \<Rightarrow> (Some err, w1)
                 | (Inr None, w1) \<Rightarrow> (Some TypeError, w1)
                 | (Inr (Some e), w1) \<Rightarrow>
                     (None, programarMenu u (enviar u (RegistroExitoso (nombre e)) w1))))
      else (None, enviar u PinIncorrecto w))"

text \<open>State \<open>SELECCION_ALUMNO\<close>.\<close>

definition enSeleccionAlumno ::
  "entorno \<Rightarrow> string \<Rightarrow> string \<Rightarrow> estadoUsuario \<Rightarrow> mundo \<Rightarrow> error option \<times> mundo" where
  "enSeleccionAlumno env u mensaje est w =
     (case elegirAlumno est mensaje of
        Inl err \<Rightarrow> (Some err, w)
      | Inr None \<Rightarrow> (None, enviar u SeleccionNoValida w)
      | Inr (Some idAlumno) \<Rightarrow>
          (case buscar env idAlumno w of
             (Inl err, w1) \<Rightarrow> (Some err, w1)
           | (Inr (Some e), w1) \<Rightarrow>
               (case enviarEstadoPagos env u (Some e) w1 of
                  (Some err, w2) \<Rightarrow> (Some err, w2)
                | (None, w2) \<Rightarrow> (None, programarMenu u w2))
           | (Inr None, w1) \<Rightarrow>
               (None, enviarMenuPrincipal u (enviar u SeleccionSinInformacion w1))))"

text \<open>State \<open>ELIMINAR_ALUMNO\<close>. The student is looked up, the link is removed, and
  only then the text reads the name of the student.\<close>

definition enEliminarAlumno ::
  "entorno \<Rightarrow> string \<Rightarrow> string \<Rightarrow> estadoUsuario \<Rightarrow> mundo \<Rightarrow> error option \<times> mundo" where
  "enEliminarAlumno env u mensaje est w =
     (case elegirAlumno est mensaje of
        Inl err \<Rightarrow> (Some err, w)
      | Inr None \<Rightarrow> (None, enviar u SeleccionNoValida w)
      | Inr (Some idAlumno) \<Rightarrow>
          (case buscar env idAlumno w of
             (Inl err, w1) \<Rightarrow> (Some err, w1)
           | (Inr encontrado, w1) \<Rightarrow>
               (case eliminarRelacion u idAlumno w1 of
                  (True, w2) \<Rightarrow>
                    (case encontrado of
                       None \<Rightarrow> (Some TypeError, w2)
                     | Some e \<Rightarrow>
                         (None, programarMenu u (enviar u (AlumnoEliminado (nombre e)) w2)))
                | (False, w2) \<Rightarrow> (None, programarMenu u (enviar u ErrorAlEliminar w2)))))"

subsection \<open>\<open>procesarMensaje\<close> and the \<open>messages.upsert\<close> handler\<close>

text \<open>The text to broadcast of a command: the message without its prefix, trimmed.\<close>

definition textoDelComando :: "string \<Rightarrow> string" where
  "textoDelComando mensaje =
     (let textoMinuscula = toLowerCase mensaje in
      if startsWith textoMinuscula ''broadcast '' then trim (drop 10 mensaje)
      else if startsWith textoMinuscula ''bc '' then trim (drop 3 mensaje)
      else mensaje)"

text \<open>The keyword \<open>men\<close> followed by u with an acute accent (U+00FA).\<close>

definition menuConAcento :: string where
  "menuConAcento = ''men'' @ [char_of (250 :: nat)]"

text \<open>
  \<open>procesarMensaje\<close>: the result is the error thrown, if any, and the world as the
  handling left it. The hooks come in the order of the source: the greeting of the day,
  the broadcast state, the broadcast command, the menu keyword; then the \<open>switch\<close>
  on the state.
\<close>

definition procesarMensaje ::
  "entorno \<Rightarrow> string \<Rightarrow> string \<Rightarrow> contenido \<Rightarrow> mundo \<Rightarrow> error option \<times> mundo" where
  "procesarMensaje env remitente mensaje mensajeObj w =
     (let est = obtenerEstado w remitente;
          textoMinuscula = toLowerCase mensaje;
          hoy = fechaHoy env;
          ultimoSaludo = obtenerUltimoSaludo w remitente
      in
      if ultimoSaludo \<noteq> Some hoy then
        (None, enviarMenuPrincipal remitente
                 (establecerEstado remitente MENU_PRINCIPAL sinDatos
                    (enviar remitente Saludo (establecerUltimoSaludo remitente hoy w))))
      else if estado est = MENU_ADMIN_BROADCAST then
        (if \<not> isAdmin w remitente
         then (None, enviarMenuPrincipal remitente
                       (establecerEstado remitente MENU_PRINCIPAL sinDatos
                          (enviar remitente PermisoDenegado w)))
         else (case enviarBroadcastObjeto env mensajeObj w of
                 (cuantos, w1) \<Rightarrow>
                   (None, enviarMenuPrincipal remitente
                            (establecerEstado remitente MENU_PRINCIPAL sinDatos
                               (enviar remitente (BroadcastEnviado cuantos) w1)))))
      else if startsWith textoMinuscula ''broadcast '' \<or> startsWith textoMinuscula ''bc '' then
        (if \<not> isAdmin w remitente
         then (None, enviar remitente PermisoDenegado w)
         else (case enviarBroadcastTexto (textoDelComando mensaje) w of
                 (cuantos, w1) \<Rightarrow> (None, enviar remitente (BroadcastEnviado cuantos) w1)))
      else if textoMinuscula = ''menu'' \<or> textoMinuscula = menuConAcento then
        (None, enviarMenuPrincipal remitente w)
      else
        (case estado est of
           MENU_PRINCIPAL \<Rightarrow> enMenuPrincipal env remitente mensaje False w
         | REGISTRO_ID \<Rightarrow> enRegistroId env remitente mensaje w
         | REGISTRO_PIN \<Rightarrow> enRegistroPin env remitente mensaje est w
         | SELECCION_ALUMNO \<Rightarrow> enSeleccionAlumno env remitente mensaje est w
         | ELIMINAR_ALUMNO \<Rightarrow> enEliminarAlumno env remitente mensaje est w
         | _ \<Rightarrow> (None, enviarMenuPrincipal remitente w)))"

text \<open>
  The handler of \<open>messages.upsert\<close>: the first message of the batch, unless it is the
  bot's own or has no content, is handled by its trimmed text when that is not empty.
  The handler has no \<open>try\<close>: what \<open>procesarMensaje\<close> throws is what the handler
  throws (its promise rejects). Reading \<open>msg.key\<close> of an empty batch throws too.
\<close>

record msg =
  fromMe :: bool
  remoteJid :: string
  message :: "contenido option"

definition textoDe :: "contenido \<Rightarrow> string" where
  "textoDe c =
     (case c of
        Conversacion t \<Rightarrow> trim t
      | TextoExtendido t q \<Rightarrow> trim t
      | _ \<Rightarrow> [])"

definition alRecibir :: "entorno \<Rightarrow> msg list \<Rightarrow> mundo \<Rightarrow> error option \<times> mundo" where
  "alRecibir env messages w =
     (case messages of
        [] \<Rightarrow> (Some TypeError, w)
      | m # rest \<Rightarrow>
          (case message m of
             None \<Rightarrow> (None, w)
           | Some c \<Rightarrow>
               if \<not> fromMe m \<and> textoDe c \<noteq> []
               then procesarMensaje env (remoteJid m) (textoDe c) c w
               else (None, w)))"

section \<open>The content cache of the remote store\<close>

text \<open>
  The module state (\<open>accessToken\<close>, \<open>lastTokenRefresh\<close>, \<open>dropboxInstance\<close>), the
  two files the cache keeps for a path (the blob and its \<open>.meta\<close>), and counters of
  the calls made to the remote store: token renewals, metadata queries, downloads
  started and downloads completed (answered with the file). The cache file of a path
  is named by the SHA-256 of the path; the model keys the files by the path itself. A
  \<open>.meta\<close> file holds the revision of the blob, or text that \<open>JSON.parse\<close>
  rejects.
\<close>

datatype metaArchivo = Meta string | Ilegible

record dropbox =
  accessToken :: "string option"
  lastTokenRefresh :: "nat option"
  dropboxInstance :: "string option"
  archivos :: "string \<rightharpoonup> string"
  metas :: "string \<rightharpoonup> metaArchivo"
  renovaciones :: nat
  consultas :: nat
  descargas :: nat
  completadas :: nat

text \<open>
  The remote side, as a script: the answer to the k-th token renewal (a token, or
  none when the renewal fails), to the k-th metadata query (the revision, or an
  error), and to the k-th download (the bytes and the revision, or an error), counted
  from 0 over the life of the module; and the clock in milliseconds.
\<close>

record servidor =
  respuestaToken :: "nat \<Rightarrow> string option"
  respuestaMetadatos :: "nat \<Rightarrow> error + string"
  respuestaDescarga :: "nat \<Rightarrow> error + string \<times> string"
  ahoraMs :: nat

text \<open>
  The local disk, as a script too. \<open>fs.writeFileSync\<close> either writes the file or
  throws; when it throws, the file is left with some content (the old one, a part of the
  new one) or is not there. The script gives the outcome of the write of the blob and of
  the write of the \<open>.meta\<close> that follow the k-th download.
\<close>

datatype 'a escritura = Escrito | Fallo "'a option"

record disco =
  escrituraArchivo :: "nat \<Rightarrow> string escritura"
  escrituraMeta :: "nat \<Rightarrow> metaArchivo escritura"

record opciones =
  maxRetries :: nat
  useCache :: bool
  forceRefresh :: bool

definition opcionesPorDefecto :: opciones where
  "opcionesPorDefecto = \<lparr>maxRetries = 3, useCache = True, forceRefresh = False\<rparr>"

definition rutaCache :: "string \<Rightarrow> string" where
  "rutaCache dropboxPath = ''dropbox_cache_v2/'' @ dropboxPath"

text \<open>\<open>refreshDropboxToken\<close>: the new token is kept with the time; a failure is the
  error \<open>No se pudo renovar el token\<close>.\<close>

definition refreshDropboxToken :: "servidor \<Rightarrow> dropbox \<Rightarrow> (error + string) \<times> dropbox" where
  "refreshDropboxToken srv st =
     (let st1 = st\<lparr>renovaciones := renovaciones st + 1\<rparr> in
      case respuestaToken srv (renovaciones st) of
        None \<Rightarrow> (Inl TokenError, st1)
      | Some tok \<Rightarrow>
          (Inr tok, st1\<lparr>accessToken := Some tok, lastTokenRefresh := Some (ahoraMs srv)\<rparr>))"

text \<open>\<open>!accessToken\<close>: no token, or the empty string.\<close>

definition sinToken :: "string option \<Rightarrow> bool" where
  "sinToken t = (case t of None \<Rightarrow> True | Some tok \<Rightarrow> tok = [])"

text \<open>\<open>getDropboxClient\<close>: the token is renewed when there is none or when it is older
  than an hour; the client is built once, with the token of that moment.\<close>

definition getDropboxClient :: "servidor \<Rightarrow> dropbox \<Rightarrow> (error + string option) \<times> dropbox" where
  "getDropboxClient srv st =
     (let vencido = (case lastTokenRefresh st of
                       None \<Rightarrow> False
                     | Some t \<Rightarrow> ahoraMs srv - t > 3600000);
          renovado = (if sinToken (accessToken st) \<or> vencido
                      then (case refreshDropboxToken srv st of
                              (Inl err, st1) \<Rightarrow> (Some err, st1)
                            | (Inr tok, st1) \<Rightarrow> (None, st1))
                      else (None, st))
      in case renovado of
           (Some err, st1) \<Rightarrow> (Inl err, st1)
         | (None, st1) \<Rightarrow>
             (let st2 = (if dropboxInstance st1 = None
                         then st1\<lparr>dropboxInstance := accessToken st1\<rparr> else st1)
              in (Inr (dropboxInstance st2), st2)))"

text \<open>The upstream revision, as the cache check asks for it: the client, then
  \<open>filesGetMetadata\<close>.\<close>

definition revisionRemota :: "servidor \<Rightarrow> dropbox \<Rightarrow> (error + string) \<times> dropbox" where
  "revisionRemota srv st =
     (case getDropboxClient srv st of
        (Inl err, st1) \<Rightarrow> (Inl err, st1)
      | (Inr dbx, st1) \<Rightarrow>
          (respuestaMetadatos srv (consultas st1), st1\<lparr>consultas := consultas st1 + 1\<rparr>))"

text \<open>
  The cache check of \<open>downloadWithRetry\<close>, for a path that has both files: whether the
  cached file is to be served. An unreadable \<open>.meta\<close>, a failed renewal and a failed
  query are caught and logged, and the download follows.
\<close>

definition revisarCache :: "servidor \<Rightarrow> string \<Rightarrow> dropbox \<Rightarrow> bool \<times> dropbox" where
  "revisarCache srv dropboxPath st =
     (case metas st dropboxPath of
        Some (Meta rev0) \<Rightarrow>
          (case revisionRemota srv st of
             (Inr revision, st1) \<Rightarrow> (revision = rev0, st1)
           | (Inl err, st1) \<Rightarrow> (False, st1))
      | _ \<Rightarrow> (False, st))"

definition esTokenExpirado :: "error \<Rightarrow> bool" where
  "esTokenExpirado err = (case err of ApiError status tag \<Rightarrow> status = 401 \<or> tag | _ \<Rightarrow> False)"

text \<open>
  The \<open>while\<close> loop, by the attempts that are left. When the download is answered,
  the blob is written, then the \<open>.meta\<close> with the revision of the response, by two
  calls of \<open>fs.writeFileSync\<close>, and the path is returned; a write that throws is
  caught like any other error of the attempt, and what has been written before it
  stays. An expired token drops the client and the token, renews the token (an error of
  the renewal leaves the function at once) and goes round again; any other error ends
  the loop and is thrown. With no attempt left, the last error is thrown, or a fresh one
  when there has been none.
\<close>

fun intentar ::
  "servidor \<Rightarrow> disco \<Rightarrow> string \<Rightarrow> nat \<Rightarrow> error option \<Rightarrow> dropbox \<Rightarrow>
     (error + string) \<times> dropbox" where
  "intentar srv dsk dropboxPath 0 lastError st =
     (Inl (case lastError of None \<Rightarrow> DownloadError | Some err \<Rightarrow> err), st)"
| "intentar srv dsk dropboxPath (Suc quedan) lastError st =
     (let intento =
        (case getDropboxClient srv st of
           (Inl err, st1) \<Rightarrow> (Inl err, st1)
         | (Inr dbx, st1) \<Rightarrow>
             (let k = descargas st1;
                  st2 = st1\<lparr>descargas := k + 1\<rparr> in
              case respuestaDescarga srv k of
                Inl err \<Rightarrow> (Inl err, st2)
              | Inr (fileBinary, revision) \<Rightarrow>
                  (let st3 = st2\<lparr>completadas := completadas st2 + 1\<rparr> in
                   case escrituraArchivo dsk k of
                     Fallo queda \<Rightarrow>
                       (Inl WriteError,
                        st3\<lparr>archivos := (archivos st3)(dropboxPath := queda)\<rparr>)
                   | Escrito \<Rightarrow>
                       (let st4 = st3\<lparr>archivos := (archivos st3)(dropboxPath \<mapsto> fileBinary)\<rparr> in
                        case escrituraMeta dsk k of
                          Fallo queda \<Rightarrow>
                            (Inl WriteError,
                             st4\<lparr>metas := (metas st4)(dropboxPath := queda)\<rparr>)
                        | Escrito \<Rightarrow>
                            (Inr (rutaCache dropboxPath),
                             st4\<lparr>metas := (metas st4)(dropboxPath \<mapsto> Meta revision)\<rparr>)))))
      in case intento of
           (Inr ruta, st5) \<Rightarrow> (Inr ruta, st5)
         | (Inl err, st5) \<Rightarrow>
             if esTokenExpirado err
             then (case refreshDropboxToken srv (st5\<lparr>dropboxInstance := None, accessToken := None\<rparr>) of
                     (Inl err2, st6) \<Rightarrow> (Inl err2, st6)
                   | (Inr tok, st6) \<Rightarrow> intentar srv dsk dropboxPath quedan (Some err) st6)
             else (Inl err, st5))"

text \<open>\<open>downloadWithRetry\<close>: the path of the cache file, or the error thrown.\<close>

definition downloadWithRetry ::
  "servidor \<Rightarrow> disco \<Rightarrow> opciones \<Rightarrow> string \<Rightarrow> dropbox \<Rightarrow> (error + string) \<times> dropbox" where
  "downloadWithRetry srv dsk opts dropboxPath st =
     (if useCache opts \<and> \<not> forceRefresh opts \<and>
         archivos st dropboxPath \<noteq> None \<and> metas st dropboxPath \<noteq> None
      then (case revisarCache srv dropboxPath st of
              (True, st1) \<Rightarrow> (Inr (rutaCache dropboxPath), st1)
            | (False, st1) \<Rightarrow> intentar srv dsk dropboxPath (maxRetries opts) None st1)
      else intentar srv dsk dropboxPath (maxRetries opts) None st)"

section \<open>The notions of the specification\<close>

text \<open>
  The definitions of this section follow the wording of the specification, not the
  code. For the debt calculation: periods are numbered 1 to 12, the first payable period
  depends on the plan, a period is pending when its cell is missing, falsy or holds
  white space only, and a pending period is late once the clock has passed the start of
  the 11th day of the month after it.
\<close>

definition primerPeriodo :: "estudiante \<Rightarrow> nat" where
  "primerPeriodo e = (if esNumero (planDePago e) 10 then 2 else 1)"

definition periodoActual :: "fecha \<Rightarrow> nat" where
  "periodoActual ahora = getMonth ahora + 1"

definition celdaPeriodo :: "columnas \<Rightarrow> estudiante \<Rightarrow> nat \<Rightarrow> jsval option" where
  "celdaPeriodo cols e n = map_of (meses e) (toLowerCase (fst (MESES cols ! (n - 1))))"

definition sinPago :: "jsval option \<Rightarrow> bool" where
  "sinPago c = (case c of None \<Rightarrow> True
                | Some v \<Rightarrow> \<not> truthy v \<or> list_all isSpace (jsToString v))"

definition periodosEnBlanco :: "columnas \<Rightarrow> fecha \<Rightarrow> estudiante \<Rightarrow> nat list" where
  "periodosEnBlanco cols ahora e =
     filter (\<lambda>n. sinPago (celdaPeriodo cols e n)) [primerPeriodo e ..< Suc (periodoActual ahora)]"

definition nombrePeriodo :: "columnas \<Rightarrow> nat \<Rightarrow> string" where
  "nombrePeriodo cols n = toUpperCase (toLowerCase (fst (MESES cols ! (n - 1))))"





text \<open>The month names of \<open>enviarEstadoPagos\<close> (\<open>mesesOrdenados\<close>), in calendar order.\<close>

definition mesesOrdenados :: "string list" where
  "mesesOrdenados = [''enero'', ''febrero'', ''marzo'', ''abril'', ''mayo'', ''junio'', ''julio'',
     ''agosto'', ''septiembre'', ''octubre'', ''noviembre'', ''diciembre'']"

text \<open>For the ledger parser. The worksheet of the ledger: the first one named
  \<open>Matricula 2025\<close>, or else the sixth worksheet, when there is one. The rows of a
  worksheet that a search for an identity number can return: those after the two header
  rows whose identity cell, as text, is the number asked for; the student built from
  such a row, when the construction does not throw; and the student of the first and of
  the last such row.\<close>

definition hojaDeMatricula :: "workbook \<Rightarrow> hoja option" where
  "hojaDeMatricula wb =
     (case filter (\<lambda>ws. fst ws = ''Matricula 2025'') (worksheets wb) of
        ws # resto \<Rightarrow> Some (snd ws)
      | [] \<Rightarrow> if 6 \<le> length (worksheets wb) then Some (snd (worksheets wb ! 5)) else None)"

definition filasCoincidentes :: "columnas \<Rightarrow> string \<Rightarrow> hoja \<Rightarrow> (nat \<times> fila) list" where
  "filasCoincidentes cols ident' h = filter (\<lambda>f. 3 \<le> fst f \<and> coincide cols ident' (snd f)) h"

definition estudianteDeFila :: "columnas \<Rightarrow> string \<Rightarrow> nat \<times> fila \<Rightarrow> estudiante option" where
  "estudianteDeFila cols ident' f =
     (case construirEstudiante cols ident' (snd f) of Inl err \<Rightarrow> None | Inr e \<Rightarrow> Some e)"

definition seConstruye :: "columnas \<Rightarrow> string \<Rightarrow> nat \<times> fila \<Rightarrow> bool" where
  "seConstruye cols ident' f = (estudianteDeFila cols ident' f \<noteq> None)"

definition primeraCoincidencia :: "columnas \<Rightarrow> string \<Rightarrow> hoja \<Rightarrow> estudiante option" where
  "primeraCoincidencia cols ident' h =
     (case filasCoincidentes cols ident' h of [] \<Rightarrow> None | f # fs \<Rightarrow> estudianteDeFila cols ident' f)"

definition ultimaCoincidencia :: "columnas \<Rightarrow> string \<Rightarrow> hoja \<Rightarrow> estudiante option" where
  "ultimaCoincidencia cols ident' h =
     (if filasCoincidentes cols ident' h = [] then None
      else estudianteDeFila cols ident' (last (filasCoincidentes cols ident' h)))"

text \<open>For the conversation. The conversation state of a user, as the data model of the
  specification has it: the state with its auxiliary data, and the date of the last
  greeting.\<close>

definition conversacion :: "mundo \<Rightarrow> string \<Rightarrow> estadoUsuario option \<times> string option" where
  "conversacion w = (\<lambda>u. (estados w u, saludos w u))"

text \<open>For the content cache. A call served from the cache: the path of the cache file is
  returned, no download is started or completed, and the two files are as they were. A
  call that went through the download attempts: either it returns the path after
  exactly one completed download, the last one started, with the blob and the
  fingerprint of that response written; or it throws with no download completed and the
  two files as they were; or it throws after one completed download because a write of
  the blob or of the fingerprint failed. And a call that made exactly one download, with
  a given blob and revision: one download started, one completed, the path returned and
  the two files written from it.\<close>

definition servidoDeCache :: "string \<Rightarrow> dropbox \<Rightarrow> error + string \<Rightarrow> dropbox \<Rightarrow> bool" where
  "servidoDeCache p st res st' =
     (res = Inr (rutaCache p) \<and> descargas st' = descargas st \<and>
      completadas st' = completadas st \<and> archivos st' = archivos st \<and> metas st' = metas st)"

definition trasIntento ::
  "servidor \<Rightarrow> disco \<Rightarrow> string \<Rightarrow> dropbox \<Rightarrow> error + string \<Rightarrow> dropbox \<Rightarrow> bool" where
  "trasIntento srv dsk p st res st' =
     (case res of
        Inr ruta \<Rightarrow>
          ruta = rutaCache p \<and> completadas st' = completadas st + 1 \<and>
          (case respuestaDescarga srv (descargas st' - 1) of
             Inr (bin, rv) \<Rightarrow>
               archivos st' = (archivos st)(p \<mapsto> bin) \<and>
               metas st' = (metas st)(p \<mapsto> Meta rv)
           | Inl err \<Rightarrow> False)
      | Inl err \<Rightarrow>
          (completadas st' = completadas st \<and> archivos st' = archivos st \<and>
           metas st' = metas st) \<or>
          (err = WriteError \<and> completadas st' = completadas st + 1 \<and>
           (escrituraArchivo dsk (descargas st' - 1) \<noteq> Escrito \<or>
            escrituraMeta dsk (descargas st' - 1) \<noteq> Escrito)))"

definition unaDescarga ::
  "string \<Rightarrow> string \<Rightarrow> string \<Rightarrow> dropbox \<Rightarrow> error + string \<Rightarrow> dropbox \<Rightarrow> bool" where
  "unaDescarga p bin rv st res st' =
     (res = Inr (rutaCache p) \<and> descargas st' = descargas st + 1 \<and>
      completadas st' = completadas st + 1 \<and>
      archivos st' = (archivos st)(p \<mapsto> bin) \<and> metas st' = (metas st)(p \<mapsto> Meta rv))"

section \<open>Example data\<close>

text \<open>A configuration with the twelve months, a student of plan A who owes May and June,
  and a clock on June 20.\<close>

definition columnasEjemplo :: columnas where
  "columnasEjemplo =
     \<lparr>ID = ''C'', NOMBRE = ''B'', GRADO = ''D'', TOTAL_PAGAR = ''I'',
      MESES = [(''ENERO'', ''J''), (''FEBRERO'', ''K''), (''MARZO'', ''L''), (''ABRIL'', ''M''),
               (''MAYO'', ''N''), (''JUNIO'', ''O''), (''JULIO'', ''P''), (''AGOSTO'', ''Q''),
               (''SEPTIEMBRE'', ''R''), (''OCTUBRE'', ''S''), (''NOVIEMBRE'', ''T''),
               (''DICIEMBRE'', ''U'')]\<rparr>"

definition alumnaEjemplo :: estudiante where
  "alumnaEjemplo =
     \<lparr>nombre = Str ''Ana Lopez'', grado = Str ''Septimo'', ident = ''0801201012345'',
      planDePago = Num 10,
      meses = [(''enero'', Null), (''febrero'', Num 500), (''marzo'', Str ''500''),
               (''abril'', Num 500), (''mayo'', Null), (''junio'', Str ''  ''),
               (''julio'', Null), (''agosto'', Null), (''septiembre'', Null),
               (''octubre'', Null), (''noviembre'', Null), (''diciembre'', Null)],
      totalPagar = Num 500, valorCeldaOriginal = Num 500\<rparr>"

definition junio20 :: fecha where
  "junio20 = \<lparr>getFullYear = 2025, getMonth = 5, getDate = 20, msDelDia = 36000000\<rparr>"

text \<open>A worksheet in which one identity number comes in rows 2, 3 and 5.\<close>

definition hojaRepetida :: hoja where
  "hojaRepetida =
     [(1, [(''B'', Str ''NOMBRE''), (''C'', Str ''IDENTIDAD'')]),
      (2, [(''B'', Str ''Modelo''), (''C'', Str ''0801201012345'')]),
      (3, [(''B'', Str ''Ana''), (''C'', Str ''0801201012345''), (''D'', Str ''Septimo''),
           (''H'', Num 10), (''I'', Num 500)]),
      (4, [(''B'', Str ''Carla''), (''C'', Str ''0801201099999''), (''D'', Str ''Octavo''),
           (''H'', Num 11), (''I'', Str ''L. 1,500.00'')]),
      (5, [(''B'', Str ''Berta''), (''C'', Str ''0801201012345''), (''D'', Str ''Noveno''),
           (''H'', Num 11), (''I'', Num 450)])]"

definition libroRepetido :: workbook where
  "libroRepetido = \<lparr>worksheets = [(''Matricula 2025'', hojaRepetida)]\<rparr>"

text \<open>A worksheet whose row 3 holds the monthly amount as a formula cell: an object with
  no \<open>text\<close> and the string \<open>500\<close> as its \<open>result\<close>.\<close>

definition hojaFormula :: hoja where
  "hojaFormula =
     [(1, [(''B'', Str ''NOMBRE''), (''C'', Str ''IDENTIDAD'')]),
      (2, [(''B'', Str ''Modelo''), (''C'', Str ''0000000000000'')]),
      (3, [(''B'', Str ''Dora''), (''C'', Str ''0801201055555''), (''D'', Str ''Sexto''),
           (''H'', Num 10), (''I'', Obj Undefined (Str ''500'')), (''K'', Num 500)])]"

definition libroFormula :: workbook where
  "libroFormula = \<lparr>worksheets = [(''Matricula 2025'', hojaFormula)]\<rparr>"

text \<open>A world with four users: a father and a grandmother who are registering a
  student (the grandmother was last greeted the day before), the school's
  administrator in the broadcast state, and a mother who is removing a student.\<close>

definition entornoEjemplo :: entorno where
  "entornoEjemplo =
     \<lparr>fechaHoy = ''2025-06-20'', reloj = junio20, libroExcel = Inr libroRepetido,
      configuracion = columnasEjemplo, medioDescargable = True\<rparr>"

definition mundoEjemplo :: mundo where
  "mundoEjemplo =
     \<lparr>estados = [''padre'' \<mapsto> \<lparr>estado = REGISTRO_ID, datos = sinDatos\<rparr>,
                 ''abuela'' \<mapsto> \<lparr>estado = REGISTRO_ID, datos = sinDatos\<rparr>,
                 ''direccion'' \<mapsto> \<lparr>estado = MENU_ADMIN_BROADCAST, datos = sinDatos\<rparr>,
                 ''madre'' \<mapsto> \<lparr>estado = ELIMINAR_ALUMNO,
                    datos = \<lparr>idEstudiante = None, alumnos = Some [''0801201099999'', ''0801201000000'']\<rparr>\<rparr>],
      saludos = [''padre'' \<mapsto> ''2025-06-20'', ''direccion'' \<mapsto> ''2025-06-20'',
                 ''madre'' \<mapsto> ''2025-06-20'', ''abuela'' \<mapsto> ''2025-06-19''],
      encargados = [(''madre'', [''0801201099999'', ''0801201000000'']),
                    (''abuela'', [''0801201012345''])],
      administradores = [''direccion''],
      pines = [''0801201012345'' \<mapsto> ''1234''],
      enviados = [],
      programados = [],
      registro = []\<rparr>"

text \<open>The same day with the download of the workbook failing, and a message of the
  father.\<close>

definition entornoCaido :: entorno where
  "entornoCaido = entornoEjemplo\<lparr>libroExcel := Inl DownloadError\<rparr>"

definition mensajeDePadre :: msg where
  "mensajeDePadre =
     \<lparr>fromMe = False, remoteJid = ''padre'', message = Some (Conversacion ''0801201012345'')\<rparr>"

text \<open>The remote store: a fresh module, a server that answers every call, the module
  after one download, and the server after the file has changed.\<close>

definition estadoInicial :: dropbox where
  "estadoInicial =
     \<lparr>accessToken = None, lastTokenRefresh = None, dropboxInstance = None,
      archivos = Map.empty, metas = Map.empty,
      renovaciones = 0, consultas = 0, descargas = 0, completadas = 0\<rparr>"

definition servidorEjemplo :: servidor where
  "servidorEjemplo =
     \<lparr>respuestaToken = (\<lambda>k. Some ''token''),
      respuestaMetadatos = (\<lambda>k. Inr ''rev-1''),
      respuestaDescarga = (\<lambda>k. Inr (''bytes-1'', ''rev-1'')),
      ahoraMs = 1000\<rparr>"

definition estadoConCache :: dropbox where
  "estadoConCache =
     \<lparr>accessToken = Some ''token'', lastTokenRefresh = Some 1000,
      dropboxInstance = Some ''token'',
      archivos = [''/cuentas.xlsx'' \<mapsto> ''bytes-1''],
      metas = [''/cuentas.xlsx'' \<mapsto> Meta ''rev-1''],
      renovaciones = 1, consultas = 0, descargas = 1, completadas = 1\<rparr>"

definition servidorCambiado :: servidor where
  "servidorCambiado =
     servidorEjemplo\<lparr>respuestaMetadatos := (\<lambda>k. Inr ''rev-2''),
                     respuestaDescarga := (\<lambda>k. Inr (''bytes-2'', ''rev-2''))\<rparr>"

text \<open>A disk on which every write succeeds, and one on which the writes of the
  \<open>.meta\<close> file fail and leave the fingerprint \<open>rev-1\<close> that was there.\<close>

definition discoEjemplo :: disco where
  "discoEjemplo = \<lparr>escrituraArchivo = (\<lambda>k. Escrito), escrituraMeta = (\<lambda>k. Escrito)\<rparr>"

definition discoLleno :: disco where
  "discoLleno =
     \<lparr>escrituraArchivo = (\<lambda>k. Escrito),
      escrituraMeta = (\<lambda>k. Fallo (Some (Meta ''rev-1'')))\<rparr>"

section \<open>Properties of the debt calculation\<close>

lemma dropWhile_todos: "(\<forall>x\<in>set (dropWhile P xs). P x) \<longleftrightarrow> list_all P xs"
  by (induction xs) auto

lemma trim_vacio: "trim s = [] \<longleftrightarrow> list_all isSpace s"
proof -
  have "trim s = [] \<longleftrightarrow> dropWhile isSpace (rev (dropWhile isSpace s)) = []"
    by (simp add: trim_def)
  also have "\<dots> \<longleftrightarrow> (\<forall>x\<in>set (dropWhile isSpace s). isSpace x)"
    by (simp add: dropWhile_eq_Nil_conv)
  also have "\<dots> \<longleftrightarrow> list_all isSpace s"
    by (rule dropWhile_todos)
  finally show ?thesis .
qed

lemma enBlanco_sinPago: "enBlanco (leer obj k) = sinPago (map_of obj k)"
  by (simp add: enBlanco_def leer_def sinPago_def trim_vacio split: option.splits)

lemma zip_indices: "zip xs [0 ..< length xs] = map (\<lambda>i. (xs ! i, i)) [0 ..< length xs]"
  by (rule nth_equalityI) simp_all

lemma mesesNumerados_nth:
  "mesesNumerados cols =
     map (\<lambda>i. (toLowerCase (fst (MESES cols ! i)), Suc i)) [0 ..< length (MESES cols)]"
proof -
  have "zip (map fst (MESES cols)) [0 ..< length (MESES cols)] =
        map (\<lambda>i. (map fst (MESES cols) ! i, i)) [0 ..< length (MESES cols)]"
    using zip_indices [of "map fst (MESES cols)"] by simp
  then show ?thesis
    by (simp add: mesesNumerados_def)
qed

lemma filter_rango: "filter (\<lambda>i. a \<le> i \<and> i < b) [0 ..< N] = [a ..< min b N]"
proof (induction N)
  case 0
  then show ?case by simp
next
  case (Suc N)
  show ?case
  proof (cases "N < b")
    case True
    then have "min b (Suc N) = Suc (min b N)" "min b N = N" by simp_all
    with Suc True show ?thesis by (cases "a \<le> N") simp_all
  next
    case False
    then have "min b (Suc N) = min b N" by simp
    with Suc False show ?thesis by simp
  qed
qed

lemma upt_pred: "1 \<le> a \<Longrightarrow> [a - 1 ..< b] = map (\<lambda>n. n - 1) [a ..< Suc b]"
proof -
  assume "1 \<le> a"
  then obtain a' where a: "a = Suc a'" by (cases a) auto
  have "map (\<lambda>n. n - 1) [Suc a' ..< Suc b] = map (\<lambda>n. n - 1) (map Suc [a' ..< b])"
    by (simp only: map_Suc_upt)
  also have "\<dots> = [a' ..< b]" by (simp add: comp_def)
  finally show ?thesis using a by simp
qed

lemma pendientes_periodos:
  assumes "getMonth ahora < length (MESES cols)"
  shows "pendientes cols ahora e =
     map (\<lambda>n. (toLowerCase (fst (MESES cols ! (n - 1))), n)) (periodosEnBlanco cols ahora e)"
proof -
  let ?N = "length (MESES cols)"
  let ?f = "\<lambda>i. (toLowerCase (fst (MESES cols ! i)), Suc i)"
  let ?g = "\<lambda>n. (toLowerCase (fst (MESES cols ! (n - 1))), n)"
  let ?m = "getMonth ahora + 1"
  let ?L = "[inicioMes e ..< Suc ?m]"
  let ?B = "\<lambda>m. enBlanco (leer (meses e) (fst m))"
  have ini: "1 \<le> inicioMes e" by (simp add: inicioMes_def)
  have r: "filter (\<lambda>i. inicioMes e \<le> Suc i \<and> Suc i \<le> ?m) [0 ..< ?N] = [inicioMes e - 1 ..< ?m]"
  proof -
    have "(\<lambda>i. inicioMes e \<le> Suc i \<and> Suc i \<le> ?m) = (\<lambda>i. inicioMes e - 1 \<le> i \<and> i < ?m)"
      using ini by (auto simp: fun_eq_iff)
    then show ?thesis using assms by (simp add: filter_rango min_def)
  qed
  have "pendientes cols ahora e =
        filter ?B (map ?f (filter (\<lambda>i. inicioMes e \<le> Suc i \<and> Suc i \<le> ?m) [0 ..< ?N]))"
    by (simp add: pendientes_def mesesNumerados_nth filter_map comp_def)
  also have "\<dots> = filter ?B (map ?f (map (\<lambda>n. n - 1) ?L))"
    by (simp only: r upt_pred [OF ini])
  also have "\<dots> = filter ?B (map ?g ?L)"
    using ini by (auto simp: comp_def intro!: arg_cong [where f = "filter ?B"])
  also have "\<dots> = map ?g (filter (\<lambda>n. ?B (?g n)) ?L)"
    by (simp add: filter_map comp_def)
  also have "\<dots> = map ?g (periodosEnBlanco cols ahora e)"
    by (simp add: periodosEnBlanco_def primerPeriodo_def inicioMes_def periodoActual_def
        celdaPeriodo_def enBlanco_sinPago)
  finally show ?thesis .
qed





text \<open>Facts that let the simplifier evaluate the arithmetic and the text functions on
  literals.\<close>

lemma floor_fraccion: "\<lfloor>(numeral a :: rat) / numeral b\<rfloor> = numeral a div numeral b"
  using floor_divide_of_int_eq [of "numeral a" "numeral b", where ?'a = rat] by simp

lemma bits_cero: "bits 0 = 0"
  by (simp add: bits.simps)

lemma bits_numeral: "bits (numeral n) = Suc (bits (numeral n div 2))"
  by (subst bits.simps) simp

lemma bits_uno: "bits (Suc 0) = 1"
  by (subst bits.simps) (simp add: bits_cero)

lemma digitos_menor: "n < 10 \<Longrightarrow> digitos n = [digitChar n]"
  by (simp add: digitos.simps)

lemma digitos_mayor: "10 \<le> n \<Longrightarrow> digitos n = digitos (n div 10) @ [digitChar (n mod 10)]"
  by (subst digitos.simps) simp

lemma replicar_numeral: "replicate (numeral n) x = x # replicate (pred_numeral n) x"
  by (simp add: numeral_eq_Suc)

lemmas evalDoble = bits_cero bits_numeral bits_uno pot2_def pot10_def exponente2_def mitadPar_def
  redondear_def productoDoble_def sumaDoble_def esNumero_def cincoPorCiento_def floor_fraccion
  Let_def

lemmas evalCaracter = code_def char_of_def bit_Suc_0_iff digitChar_def isSpace_def isDigit_def
  lowerChar_def upperChar_def

lemmas evalNumero = evalDoble evalCaracter digitos_menor digitos_mayor replicar_numeral
  exponente10_def probarDigitos_def digitosCortos_def textoPositivo_def numToString_def

lemma numToString_500: "numToString 500 = ''500''" by (simp add: evalNumero)
lemma numToString_450: "numToString 450 = ''450''" by (simp add: evalNumero)
lemma numToString_10: "numToString 10 = ''10''" by (simp add: evalNumero)
lemma numToString_11: "numToString 11 = ''11''" by (simp add: evalNumero)

text \<open>Two numbers that are not integers: a small one, written with an exponent, and the
  amount 640.50.\<close>

lemma numToString_exponente: "numToString (1 / 10 ^ 7) = ''1e-7''" by (simp add: evalNumero)
lemma numToString_640: "numToString (1281 / 2) = ''640.5''" by (simp add: evalNumero)

lemmas evalTexto = evalCaracter toLowerCase_def toUpperCase_def trim_def startsWith_def
  digitos_menor digitos_mayor floor_fraccion toFixed2_def numToString_500 numToString_450
  numToString_10 numToString_11

lemma redondear_500: "redondear 500 = 500" by (simp add: evalDoble)
lemma mora_500: "sumaDoble 0 (productoDoble 500 cincoPorCiento) = 25" by (simp add: evalDoble)
lemma mensualidad_500: "productoDoble 500 2 = 1000" by (simp add: evalDoble)
lemma total_500: "sumaDoble 1000 25 = 1025" by (simp add: evalDoble)
lemma toFixed2_1000: "toFixed2 1000 = ''1000.00''" by (simp add: evalTexto)
lemma toFixed2_25: "toFixed2 25 = ''25.00''" by (simp add: evalTexto)
lemma toFixed2_1025: "toFixed2 1025 = ''1025.00''" by (simp add: evalTexto)
lemma toFixed2_500: "toFixed2 500 = ''500.00''" by (simp add: evalTexto)
lemma mayus_mayo: "toUpperCase ''mayo'' = ''MAYO''" by (simp add: evalTexto)
lemma mayus_junio: "toUpperCase ''junio'' = ''JUNIO''" by (simp add: evalTexto)








text \<open>
  C2. A plan-A student (\<open>planDePago = 10\<close>) with monthly amount 500, on June 20 of any
  year and at any time of the day, with the cells of February, March and April not blank
  and those of May and June blank, under a configuration that names the twelve months in
  calendar order: the pending periods are MAYO and JUNIO, the pending amount is 1000.00,
  the late fee 25.00 (only May is past its due date), the total 1025.00, and the student
  is not up to date.
\<close>

theorem calcularDeuda_escenario_junio:
  assumes cfg: "map (\<lambda>m. toLowerCase (fst m)) (MESES cols) = mesesOrdenados"
    and plan: "planDePago e = Num 10"
    and cuota: "totalPagar e = Num 500"
    and hoy: "getMonth ahora = 5" "getDate ahora = 20"
    and pagados: "\<not> enBlanco (leer (meses e) ''febrero'')"
                 "\<not> enBlanco (leer (meses e) ''marzo'')"
                 "\<not> enBlanco (leer (meses e) ''abril'')"
    and sinPagar: "enBlanco (leer (meses e) ''mayo'')" "enBlanco (leer (meses e) ''junio'')"
  shows "calcularDeuda cols ahora e =
           Inr \<lparr>deudaMensualidad = ''1000.00'', deudaMora = ''25.00'',
                totalDeuda = ''1025.00'', mesesPendientes = [''MAYO'', ''JUNIO''],
                cuotaMensual = ''500.00'', alDia = False\<rparr>"
proof -
  have len: "length (MESES cols) = 12"
    using arg_cong [OF cfg, of length] by (simp add: mesesOrdenados_def)
  have nth: "toLowerCase (fst (MESES cols ! i)) = mesesOrdenados ! i" if "i < 12" for i
    using that len nth_map [of i "MESES cols" "\<lambda>m. toLowerCase (fst m)"] cfg by simp
  have "mesesNumerados cols = map (\<lambda>i. (mesesOrdenados ! i, Suc i)) [0 ..< 12]"
    unfolding mesesNumerados_nth len by (rule map_cong [OF refl]) (simp add: nth)
  also have "[0 ..< 12] = [0, 1, 2, 3, 4, 5, 6, 7, 8, 9, 10, 11 :: nat]"
    by (simp add: upt_rec)
  finally have num: "mesesNumerados cols =
      [(''enero'', 1), (''febrero'', 2), (''marzo'', 3), (''abril'', 4), (''mayo'', 5),
       (''junio'', 6), (''julio'', 7), (''agosto'', 8), (''septiembre'', 9), (''octubre'', 10),
       (''noviembre'', 11), (''diciembre'', 12)]"
    by (simp add: mesesOrdenados_def)
  have pend: "pendientes cols ahora e = [(''mayo'', 5), (''junio'', 6)]"
    using plan hoy pagados sinPagar by (simp add: pendientes_def num inicioMes_def esNumero_def)
  have mora: "foldl (acumularMora ahora 500) 0 [(''mayo'', 5), (''junio'', 6)] = 25"
    using hoy
    by (simp add: acumularMora_def fechaVencimiento_def newDate_def posterior_def mora_500)
  show ?thesis
    using cuota
    by (simp add: calcularDeuda_def pend redondear_500 mora mensualidad_500 total_500
        toFixed2_1000 toFixed2_25 toFixed2_1025 toFixed2_500 mayus_mayo mayus_junio
        del: foldl.simps)
qed

theorem calcularDeuda_escenario_junio_witness:
  "map (\<lambda>m. toLowerCase (fst m)) (MESES columnasEjemplo) = mesesOrdenados \<and>
   planDePago alumnaEjemplo = Num 10 \<and> totalPagar alumnaEjemplo = Num 500 \<and>
   getMonth junio20 = 5 \<and> getDate junio20 = 20 \<and>
   \<not> enBlanco (leer (meses alumnaEjemplo) ''febrero'') \<and>
   \<not> enBlanco (leer (meses alumnaEjemplo) ''marzo'') \<and>
   \<not> enBlanco (leer (meses alumnaEjemplo) ''abril'') \<and>
   enBlanco (leer (meses alumnaEjemplo) ''mayo'') \<and>
   enBlanco (leer (meses alumnaEjemplo) ''junio'') \<and>
   calcularDeuda columnasEjemplo junio20 alumnaEjemplo =
     Inr \<lparr>deudaMensualidad = ''1000.00'', deudaMora = ''25.00'',
          totalDeuda = ''1025.00'', mesesPendientes = [''MAYO'', ''JUNIO''],
          cuotaMensual = ''500.00'', alDia = False\<rparr>"
proof -
  have h1: "map (\<lambda>m. toLowerCase (fst m)) (MESES columnasEjemplo) = mesesOrdenados"
    by (simp add: columnasEjemplo_def mesesOrdenados_def evalTexto)
  have h2: "planDePago alumnaEjemplo = Num 10" "totalPagar alumnaEjemplo = Num 500"
    by (simp_all add: alumnaEjemplo_def)
  have h3: "getMonth junio20 = 5" "getDate junio20 = 20"
    by (simp_all add: junio20_def)
  have h4: "\<not> enBlanco (leer (meses alumnaEjemplo) ''febrero'')"
           "\<not> enBlanco (leer (meses alumnaEjemplo) ''marzo'')"
           "\<not> enBlanco (leer (meses alumnaEjemplo) ''abril'')"
    by (simp_all add: alumnaEjemplo_def enBlanco_def leer_def evalTexto)
  have h5: "enBlanco (leer (meses alumnaEjemplo) ''mayo'')"
           "enBlanco (leer (meses alumnaEjemplo) ''junio'')"
    by (simp_all add: alumnaEjemplo_def enBlanco_def leer_def evalTexto)
  from calcularDeuda_escenario_junio [OF h1 h2 h3 h4 h5] h1 h2 h3 h4 h5
  show ?thesis by simp
qed

text \<open>
  C3, as amended. Under a configuration that lists the months up to the current one:
  for a student whose monthly amount is a number, the pending periods returned by
  \<open>calcularDeuda\<close> are, in calendar order, the periods from the first payable one
  (2 when \<open>planDePago\<close> is 10, 1 otherwise) through the current one whose cell is
  missing, falsy or white space only, under their upper-case names; the pending amount is
  \<open>toFixed(2)\<close> of the product, in double precision, of the monthly amount and their
  number; and \<open>alDia\<close> holds exactly when there are none. For a student whose monthly
  amount is not a number, \<open>calcularDeuda\<close> throws a \<open>TypeError\<close>, and there is no
  pending list.
\<close>

theorem calcularDeuda_meses_pendientes:
  assumes "getMonth ahora < length (MESES cols)"
  shows "case totalPagar e of
           Num r \<Rightarrow>
             (\<exists>d. calcularDeuda cols ahora e = Inr d \<and>
                mesesPendientes d = map (nombrePeriodo cols) (periodosEnBlanco cols ahora e) \<and>
                deudaMensualidad d =
                  toFixed2 (productoDoble (redondear r)
                    (of_nat (length (periodosEnBlanco cols ahora e)))) \<and>
                alDia d = (periodosEnBlanco cols ahora e = []))
         | _ \<Rightarrow> calcularDeuda cols ahora e = Inl TypeError"
proof (cases "totalPagar e")
  case (Num r)
  then show ?thesis
    by (simp add: calcularDeuda_def Let_def pendientes_periodos [OF assms] comp_def
        nombrePeriodo_def)
qed (simp_all add: calcularDeuda_def)

theorem calcularDeuda_meses_pendientes_witness:
  "getMonth junio20 < length (MESES columnasEjemplo) \<and> totalPagar alumnaEjemplo = Num 500 \<and>
   periodosEnBlanco columnasEjemplo junio20 alumnaEjemplo = [5, 6] \<and>
   (\<exists>d. calcularDeuda columnasEjemplo junio20 alumnaEjemplo = Inr d \<and>
        mesesPendientes d =
          map (nombrePeriodo columnasEjemplo)
            (periodosEnBlanco columnasEjemplo junio20 alumnaEjemplo) \<and>
        deudaMensualidad d =
          toFixed2 (productoDoble (redondear 500)
            (of_nat (length (periodosEnBlanco columnasEjemplo junio20 alumnaEjemplo)))) \<and>
        alDia d = (periodosEnBlanco columnasEjemplo junio20 alumnaEjemplo = [])) \<and>
   calcularDeuda columnasEjemplo junio20 (alumnaEjemplo\<lparr>totalPagar := Null\<rparr>) = Inl TypeError"
proof -
  have h1: "totalPagar alumnaEjemplo = Num 500" by (simp add: alumnaEjemplo_def)
  have h2: "getMonth junio20 < length (MESES columnasEjemplo)"
    by (simp add: junio20_def columnasEjemplo_def)
  have h3: "periodosEnBlanco columnasEjemplo junio20 alumnaEjemplo = [5, 6]"
    by (simp add: periodosEnBlanco_def primerPeriodo_def esNumero_def periodoActual_def
        celdaPeriodo_def sinPago_def alumnaEjemplo_def junio20_def columnasEjemplo_def upt_rec
        evalTexto)
  from calcularDeuda_meses_pendientes [OF h2, where e = alumnaEjemplo]
    calcularDeuda_meses_pendientes [OF h2, where e = "alumnaEjemplo\<lparr>totalPagar := Null\<rparr>"]
    h1 h2 h3 show ?thesis by simp
qed
section \<open>Properties of the ledger parser\<close>

lemma visitarFila_error: "foldl (visitarFila cols i) (Inl err) h = Inl err"
  by (induction h) (simp_all add: visitarFila_def)

lemma recorrido_sin_error:
  assumes "list_all (seConstruye cols i) (filasCoincidentes cols i h)"
  shows "foldl (visitarFila cols i) (Inr a) h =
           Inr (if filasCoincidentes cols i h = [] then a else ultimaCoincidencia cols i h)"
  using assms
proof (induction h rule: rev_induct)
  case Nil
  then show ?case by (simp add: filasCoincidentes_def)
next
  case (snoc f h)
  from snoc.prems have prev: "list_all (seConstruye cols i) (filasCoincidentes cols i h)"
    by (simp add: filasCoincidentes_def)
  note ih = snoc.IH [OF prev]
  show ?case
  proof (cases "3 \<le> fst f \<and> coincide cols i (snd f)")
    case True
    then have ms: "filasCoincidentes cols i (h @ [f]) = filasCoincidentes cols i h @ [f]"
      by (simp add: filasCoincidentes_def)
    from snoc.prems ms have "seConstruye cols i f" by simp
    then obtain e where e: "construirEstudiante cols i (snd f) = Inr e"
      by (auto simp: seConstruye_def estudianteDeFila_def split: sum.splits)
    have "foldl (visitarFila cols i) (Inr a) (h @ [f]) =
          visitarFila cols i (Inr (if filasCoincidentes cols i h = [] then a
                                   else ultimaCoincidencia cols i h)) f"
      by (simp only: foldl_append foldl.simps ih)
    also have "\<dots> = Inr (Some e)"
      using True e by (simp add: visitarFila_def)
    finally show ?thesis
      using e by (simp add: ms ultimaCoincidencia_def estudianteDeFila_def)
  next
    case False
    then have ms: "filasCoincidentes cols i (h @ [f]) = filasCoincidentes cols i h"
      by (auto simp: filasCoincidentes_def)
    have "foldl (visitarFila cols i) (Inr a) (h @ [f]) =
          visitarFila cols i (Inr (if filasCoincidentes cols i h = [] then a
                                   else ultimaCoincidencia cols i h)) f"
      by (simp only: foldl_append foldl.simps ih)
    also have "\<dots> = Inr (if filasCoincidentes cols i h = [] then a
                           else ultimaCoincidencia cols i h)"
      using False by (auto simp: visitarFila_def)
    finally show ?thesis
      by (simp add: ms ultimaCoincidencia_def)
  qed
qed

lemma construirEstudiante_error:
  "construirEstudiante cols i row = Inl err \<Longrightarrow> err = TypeError"
  by (auto simp: construirEstudiante_def leerTotalPagar_def Let_def
      split: sum.splits jsval.splits if_splits)

lemma recorrido_con_error:
  "\<not> list_all (seConstruye cols i) (filasCoincidentes cols i h) \<Longrightarrow>
     foldl (visitarFila cols i) (Inr a) h = Inl TypeError"
proof (induction h arbitrary: a)
  case Nil
  then show ?case by (simp add: filasCoincidentes_def)
next
  case (Cons f h)
  show ?case
  proof (cases "3 \<le> fst f \<and> coincide cols i (snd f)")
    case False
    with Cons.prems have "\<not> list_all (seConstruye cols i) (filasCoincidentes cols i h)"
      by (auto simp: filasCoincidentes_def)
    from Cons.IH [OF this, of a] False show ?thesis by (auto simp: visitarFila_def)
  next
    case True
    show ?thesis
    proof (cases "construirEstudiante cols i (snd f)")
      case (Inl err)
      then have "err = TypeError" by (rule construirEstudiante_error)
      with True Inl have "visitarFila cols i (Inr a) f = Inl TypeError"
        by (simp add: visitarFila_def)
      then show ?thesis by (simp add: visitarFila_error)
    next
      case (Inr e)
      then have "seConstruye cols i f"
        by (simp add: seConstruye_def estudianteDeFila_def)
      with True Cons.prems
      have "\<not> list_all (seConstruye cols i) (filasCoincidentes cols i h)"
        by (simp add: filasCoincidentes_def)
      from Cons.IH [OF this, of "Some e"] True Inr show ?thesis by (simp add: visitarFila_def)
    qed
  qed
qed

lemma elegirHoja_hojaDeMatricula:
  "elegirHoja wb = (case hojaDeMatricula wb of None \<Rightarrow> Inl TypeError | Some h \<Rightarrow> Inr h)"
proof -
  have primero: "find P xs = (case filter P xs of [] \<Rightarrow> None | x # r \<Rightarrow> Some x)"
    for P and xs :: "'a list"
    by (induction xs) simp_all
  show ?thesis
    by (simp add: elegirHoja_def hojaDeMatricula_def primero split: list.splits)
qed

text \<open>
  C4, as amended. For every requested id, \<open>buscarEstudiante\<close> throws the error of
  \<open>getWorkbook\<close> when the workbook cannot be had; it throws when the workbook has no
  worksheet named \<open>Matricula 2025\<close> and fewer than six worksheets; otherwise it scans
  the rows of that worksheet (the first of that name, or else the sixth) after the fixed
  two-row header offset, and it throws when the monthly-amount cell of some row whose
  identity cell, as text, equals the id is an object with a truthy \<open>text\<close> that is
  not a string; otherwise it returns the student built from the last row whose identity
  cell as text equals the id, and \<open>null\<close> when no row matches. (The callback of
  \<open>eachRow\<close> assigns the result at every matching row, and the scan never stops
  early.)
\<close>

theorem buscarEstudiante_ultima_fila:
  "buscarEstudiante cols libro i =
     (case libro of
        Inl err \<Rightarrow> Inl err
      | Inr wb \<Rightarrow>
          (case hojaDeMatricula wb of
             None \<Rightarrow> Inl TypeError
           | Some h \<Rightarrow>
               if list_all (seConstruye cols i) (filasCoincidentes cols i h)
               then Inr (ultimaCoincidencia cols i h)
               else Inl TypeError))"
proof (cases libro)
  case (Inl err)
  then show ?thesis by (simp add: buscarEstudiante_def)
next
  case (Inr wb)
  show ?thesis
  proof (cases "hojaDeMatricula wb")
    case None
    with Inr show ?thesis by (simp add: buscarEstudiante_def elegirHoja_hojaDeMatricula)
  next
    case (Some h)
    show ?thesis
    proof (cases "list_all (seConstruye cols i) (filasCoincidentes cols i h)")
      case True
      from recorrido_sin_error [OF True, of None] Inr Some True show ?thesis
        by (simp add: buscarEstudiante_def elegirHoja_hojaDeMatricula ultimaCoincidencia_def)
    next
      case False
      from recorrido_con_error [OF False, of None] Inr Some False show ?thesis
        by (simp add: buscarEstudiante_def elegirHoja_hojaDeMatricula)
    qed
  qed
qed

lemmas evalLibro = celda_def coincide_def construirEstudiante_def leerTotalPagar_def
  leerMeses_def visitarFila_def elegirHoja_def buscarEstudiante_def filasCoincidentes_def
  estudianteDeFila_def seConstruye_def parseFloatO0_def soloNumero_def parseFloat_def
  signo_def exponente_def valorDigitos_def hojaDeMatricula_def Let_def

text \<open>
  C4 as stated fails: in a worksheet where rows 3 and 5 carry the same identity number,
  the first matching row is Ana's and \<open>buscarEstudiante\<close> returns Berta, from the
  last one. (Row 2 carries the number too and is skipped, as the claim says.)
\<close>

theorem buscarEstudiante_primera_fila_counterexample:
  "\<exists>e1 e2. primeraCoincidencia columnasEjemplo ''0801201012345'' hojaRepetida = Some e1 \<and>
     buscarEstudiante columnasEjemplo (Inr libroRepetido) ''0801201012345'' = Inr (Some e2) \<and>
     nombre e1 = Str ''Ana'' \<and> nombre e2 = Str ''Berta''"
  by (simp add: primeraCoincidencia_def libroRepetido_def hojaRepetida_def columnasEjemplo_def
      evalLibro evalTexto)

theorem buscarEstudiante_ultima_fila_witness:
  "hojaDeMatricula libroRepetido = Some hojaRepetida \<and>
   list_all (seConstruye columnasEjemplo ''0801201012345'')
     (filasCoincidentes columnasEjemplo ''0801201012345'' hojaRepetida) \<and>
   buscarEstudiante columnasEjemplo (Inr libroRepetido) ''0801201012345'' =
     Inr (ultimaCoincidencia columnasEjemplo ''0801201012345'' hojaRepetida) \<and>
   buscarEstudiante columnasEjemplo (Inl DownloadError) ''0801201012345'' = Inl DownloadError"
proof -
  have h1: "hojaDeMatricula libroRepetido = Some hojaRepetida"
    by (simp add: hojaDeMatricula_def libroRepetido_def)
  have h2: "list_all (seConstruye columnasEjemplo ''0801201012345'')
     (filasCoincidentes columnasEjemplo ''0801201012345'' hojaRepetida)"
    by (simp add: hojaRepetida_def columnasEjemplo_def evalLibro evalTexto)
  from buscarEstudiante_ultima_fila [of columnasEjemplo "Inr libroRepetido" "''0801201012345''"]
    buscarEstudiante_ultima_fila [of columnasEjemplo "Inl DownloadError" "''0801201012345''"]
    h1 h2 show ?thesis by simp
qed

text \<open>
  C3 as stated fails: not every student has a pending list. The parser keeps the
  \<open>result\<close> of a formula cell as the monthly amount, whatever its type; for the row of
  Dora, whose monthly-amount cell is a formula with the string \<open>500\<close> as result,
  \<open>buscarEstudiante\<close> returns a student whose monthly amount is that string, and
  \<open>calcularDeuda\<close> throws on her.
\<close>

theorem calcularDeuda_monto_texto_counterexample:
  "\<exists>e. buscarEstudiante columnasEjemplo (Inr libroFormula) ''0801201055555'' = Inr (Some e) \<and>
     totalPagar e = Str ''500'' \<and>
     calcularDeuda columnasEjemplo junio20 e = Inl TypeError"
  by (simp add: libroFormula_def hojaFormula_def columnasEjemplo_def calcularDeuda_def
      evalLibro evalTexto)
section \<open>Properties of the conversation\<close>

text \<open>The definitions the simplifier unfolds to run the conversation on example data.\<close>

lemmas evalBot = sinDatos_def obtenerEstado_def establecerEstado_def obtenerUltimoSaludo_def
  establecerUltimoSaludo_def obtenerAlumnosEncargado_def registrarEncargado_def
  eliminarRelacion_def validarPIN_def isAdmin_def enviar_def programarMenu_def
  enviarMenuPrincipal_def difundir_def enviarBroadcastTexto_def enviarBroadcastObjeto_def
  enviarEstadoPagos_def buscar_def esIdentidad_def parseInt10_def elegirAlumno_def
  enMenuPrincipal_def enRegistroId_def enRegistroPin_def enSeleccionAlumno_def
  enEliminarAlumno_def textoDelComando_def menuConAcento_def procesarMensaje_def
  textoDe_def alRecibir_def Let_def

subsection \<open>What a handling leaves untouched\<close>

lemma conversacion_enviar: "conversacion (enviar u m w) = conversacion w"
  by (simp add: conversacion_def enviar_def)

lemma conversacion_programarMenu: "conversacion (programarMenu u w) = conversacion w"
  by (simp add: conversacion_def programarMenu_def)

lemma conversacion_registrarEncargado: "conversacion (registrarEncargado u i w) = conversacion w"
  by (simp add: conversacion_def registrarEncargado_def Let_def)

lemma conversacion_eliminarRelacion: "conversacion (snd (eliminarRelacion u i w)) = conversacion w"
  by (simp add: conversacion_def eliminarRelacion_def Let_def)

lemma conversacion_buscar: "conversacion (snd (buscar env i w)) = conversacion w"
  by (simp add: conversacion_def buscar_def split: sum.splits)

lemma conversacion_establecerEstado:
  "u' \<noteq> u \<Longrightarrow> conversacion (establecerEstado u s d w) u' = conversacion w u'"
  by (simp add: conversacion_def establecerEstado_def)

lemma conversacion_establecerUltimoSaludo:
  "u' \<noteq> u \<Longrightarrow> conversacion (establecerUltimoSaludo u d w) u' = conversacion w u'"
  by (simp add: conversacion_def establecerUltimoSaludo_def)

lemma conversacion_enviarMenuPrincipal:
  "u' \<noteq> u \<Longrightarrow> conversacion (enviarMenuPrincipal u w) u' = conversacion w u'"
  by (simp add: enviarMenuPrincipal_def Let_def conversacion_enviar conversacion_establecerEstado)

lemma conversacion_listarAlumnos: "conversacion (snd (listarAlumnos env l acc w)) = conversacion w"
proof (induction l arbitrary: acc w)
  case Nil
  then show ?case by simp
next
  case (Cons i rest)
  obtain r w1 where b: "buscar env i w = (r, w1)" by (cases "buscar env i w")
  then have "conversacion w1 = conversacion w" using conversacion_buscar [of env i w] by simp
  with b Cons.IH show ?case
    by (cases r) (auto split: option.splits)
qed

lemma conversacion_difundir: "conversacion (snd (difundir m w)) = conversacion w"
proof -
  have "conversacion (foldl (\<lambda>w' d. enviar d m w') w ds) = conversacion w" for ds
    by (induction ds arbitrary: w) (simp_all add: conversacion_enviar)
  then show ?thesis by (simp add: difundir_def Let_def)
qed

lemma conversacion_enviarBroadcastObjeto: "conversacion (snd (enviarBroadcastObjeto env c w)) = conversacion w"
  by (simp add: enviarBroadcastObjeto_def Let_def conversacion_difundir
      split: contenido.splits option.splits)

lemma conversacion_enviarEstadoPagos: "conversacion (snd (enviarEstadoPagos env u e w)) = conversacion w"
  by (simp add: enviarEstadoPagos_def conversacion_enviar split: option.splits sum.splits jsval.splits)

lemmas marco = conversacion_enviar conversacion_programarMenu conversacion_registrarEncargado
  conversacion_eliminarRelacion conversacion_buscar conversacion_establecerEstado conversacion_enviarMenuPrincipal
  conversacion_listarAlumnos conversacion_difundir conversacion_enviarBroadcastObjeto
  conversacion_enviarEstadoPagos

text \<open>The same facts for a call whose result has been named.\<close>

lemma buscar_conversacionD: "buscar env i w = (r, w') \<Longrightarrow> conversacion w' = conversacion w"
  using conversacion_buscar [of env i w] by simp

lemma listarAlumnos_conversacionD:
  "listarAlumnos env l acc w = (r, w') \<Longrightarrow> conversacion w' = conversacion w"
  using conversacion_listarAlumnos [of env l acc w] by simp

lemma eliminarRelacion_conversacionD:
  "eliminarRelacion u i w = (r, w') \<Longrightarrow> conversacion w' = conversacion w"
  using conversacion_eliminarRelacion [of u i w] by simp

lemma enviarEstadoPagos_conversacionD:
  "enviarEstadoPagos env u e w = (r, w') \<Longrightarrow> conversacion w' = conversacion w"
  using conversacion_enviarEstadoPagos [of env u e w] by simp

lemma enviarBroadcastObjeto_conversacionD:
  "enviarBroadcastObjeto env c w = (r, w') \<Longrightarrow> conversacion w' = conversacion w"
  using conversacion_enviarBroadcastObjeto [of env c w] by simp

lemma enviarBroadcastTexto_conversacionD:
  "enviarBroadcastTexto t w = (r, w') \<Longrightarrow> conversacion w' = conversacion w"
  using conversacion_difundir [of "TextoDifundido t" w] by (simp add: enviarBroadcastTexto_def)

lemmas marcoD = buscar_conversacionD listarAlumnos_conversacionD eliminarRelacion_conversacionD
  enviarEstadoPagos_conversacionD enviarBroadcastObjeto_conversacionD enviarBroadcastTexto_conversacionD

lemma enRegistroId_otros:
  "u' \<noteq> u \<Longrightarrow> conversacion (snd (enRegistroId env u mensaje w)) u' = conversacion w u'"
  by (auto simp: enRegistroId_def marco split: prod.splits sum.splits option.splits
      dest: marcoD)

lemma enRegistroPin_otros:
  "u' \<noteq> u \<Longrightarrow> conversacion (snd (enRegistroPin env u mensaje est w)) u' = conversacion w u'"
  by (auto simp: enRegistroPin_def marco split: prod.splits sum.splits option.splits
      dest!: marcoD)

lemma enSeleccionAlumno_otros:
  "u' \<noteq> u \<Longrightarrow> conversacion (snd (enSeleccionAlumno env u mensaje est w)) u' = conversacion w u'"
  by (auto simp: enSeleccionAlumno_def marco split: prod.splits sum.splits option.splits
      dest!: marcoD)

lemma enEliminarAlumno_otros:
  "u' \<noteq> u \<Longrightarrow> conversacion (snd (enEliminarAlumno env u mensaje est w)) u' = conversacion w u'"
  by (auto simp: enEliminarAlumno_def marco split: prod.splits sum.splits option.splits bool.splits
      dest!: marcoD)

lemma enMenuPrincipal_otros:
  "u' \<noteq> u \<Longrightarrow> conversacion (snd (enMenuPrincipal env u mensaje b w)) u' = conversacion w u'"
  by (auto simp: enMenuPrincipal_def Let_def marco split: prod.splits sum.splits option.splits
      dest!: marcoD)

lemma procesarMensaje_otros:
  "u' \<noteq> u \<Longrightarrow> conversacion (snd (procesarMensaje env u mensaje c w)) u' = conversacion w u'"
  by (auto simp: procesarMensaje_def Let_def marco enRegistroId_otros enRegistroPin_otros
      enSeleccionAlumno_otros enEliminarAlumno_otros enMenuPrincipal_otros
      conversacion_establecerUltimoSaludo
      split: prod.splits estadoConv.splits dest!: marcoD)

subsection \<open>The hooks\<close>

text \<open>
  C5 fails on the code in the broadcast state. An administrator in state
  \<open>MENU_ADMIN_BROADCAST\<close>, whose greeting of the day has been sent, writes the menu
  keyword: the hook of the broadcast state comes before the hook of the keyword, so the
  keyword is sent to every guardian as a broadcast, and only then the menu is rendered.
  (The prompt of that state tells the administrator to write the keyword to go back to
  the menu.)
\<close>

theorem menu_en_broadcast_se_difunde:
  "fst (procesarMensaje entornoEjemplo ''direccion'' menuConAcento
          (Conversacion menuConAcento) mundoEjemplo) = None \<and>
   enviados (snd (procesarMensaje entornoEjemplo ''direccion'' menuConAcento
          (Conversacion menuConAcento) mundoEjemplo)) =
     [(''madre'', TextoDifundido menuConAcento), (''abuela'', TextoDifundido menuConAcento),
      (''direccion'', BroadcastEnviado 2), (''direccion'', Menu 0 True)]"
  by (simp add: entornoEjemplo_def mundoEjemplo_def evalBot evalTexto)

text \<open>In every other state the keyword does what C5 says: the menu is rendered, the
  state becomes \<open>MENU_PRINCIPAL\<close>, and the branch of the state is not run.\<close>

lemma palabra_menu_fuera_de_broadcast:
  assumes "estado (obtenerEstado w u) \<noteq> MENU_ADMIN_BROADCAST"
    and "obtenerUltimoSaludo w u = Some (fechaHoy env)"
    and "toLowerCase mensaje = ''menu'' \<or> toLowerCase mensaje = menuConAcento"
  shows "procesarMensaje env u mensaje c w = (None, enviarMenuPrincipal u w)"
  using assms
  by (auto simp: procesarMensaje_def Let_def startsWith_def menuConAcento_def)

text \<open>
  C7, as amended. For a user who is not an administrator and is not in the broadcast
  state, and whose message is not the first of the day, a message whose lower-case text
  begins with \<open>broadcast\<close> or \<open>bc\<close> and a space is answered with the
  permission-denied text and nothing else happens: no broadcast, no change of the
  conversation state, nothing scheduled.
\<close>

theorem comando_sin_permiso:
  assumes "\<not> isAdmin w u"
    and "estado (obtenerEstado w u) \<noteq> MENU_ADMIN_BROADCAST"
    and "obtenerUltimoSaludo w u = Some (fechaHoy env)"
    and "startsWith (toLowerCase mensaje) ''broadcast '' \<or> startsWith (toLowerCase mensaje) ''bc ''"
  shows "procesarMensaje env u mensaje c w =
           (None, w\<lparr>enviados := enviados w @ [(u, PermisoDenegado)]\<rparr>)"
  using assms by (auto simp: procesarMensaje_def Let_def enviar_def)

theorem comando_sin_permiso_witness:
  "\<not> isAdmin mundoEjemplo ''padre'' \<and>
   estado (obtenerEstado mundoEjemplo ''padre'') \<noteq> MENU_ADMIN_BROADCAST \<and>
   obtenerUltimoSaludo mundoEjemplo ''padre'' = Some (fechaHoy entornoEjemplo) \<and>
   (startsWith (toLowerCase ''BC hola'') ''broadcast '' \<or>
    startsWith (toLowerCase ''BC hola'') ''bc '') \<and>
   procesarMensaje entornoEjemplo ''padre'' ''BC hola'' (Conversacion ''BC hola'') mundoEjemplo =
     (None, mundoEjemplo\<lparr>enviados := enviados mundoEjemplo @ [(''padre'', PermisoDenegado)]\<rparr>)"
proof -
  have h1: "\<not> isAdmin mundoEjemplo ''padre''"
    by (simp add: isAdmin_def mundoEjemplo_def)
  have h2: "estado (obtenerEstado mundoEjemplo ''padre'') \<noteq> MENU_ADMIN_BROADCAST"
    by (simp add: obtenerEstado_def mundoEjemplo_def)
  have h3: "obtenerUltimoSaludo mundoEjemplo ''padre'' = Some (fechaHoy entornoEjemplo)"
    by (simp add: obtenerUltimoSaludo_def mundoEjemplo_def entornoEjemplo_def)
  have h4: "startsWith (toLowerCase ''BC hola'') ''broadcast '' \<or>
            startsWith (toLowerCase ''BC hola'') ''bc ''"
    by (simp add: evalTexto)
  from comando_sin_permiso [OF h1 h2 h3 h4] h1 h2 h3 h4 show ?thesis by blast
qed

text \<open>
  C7 as stated fails on the first message of the day: the greeting hook comes first. A
  user who is not an administrator, in state \<open>REGISTRO_ID\<close> and last greeted the day
  before, sends a broadcast command: the answers are the greeting and the menu, not the
  permission-denied text, and the state becomes \<open>MENU_PRINCIPAL\<close>.
\<close>

theorem comando_primer_mensaje_counterexample:
  "\<not> isAdmin mundoEjemplo ''abuela'' \<and>
   estado (obtenerEstado mundoEjemplo ''abuela'') = REGISTRO_ID \<and>
   startsWith (toLowerCase ''bc hola'') ''bc '' \<and>
   fst (procesarMensaje entornoEjemplo ''abuela'' ''bc hola'' (Conversacion ''bc hola'')
          mundoEjemplo) = None \<and>
   enviados (snd (procesarMensaje entornoEjemplo ''abuela'' ''bc hola''
                    (Conversacion ''bc hola'') mundoEjemplo)) =
     [(''abuela'', Saludo), (''abuela'', Menu 1 False)] \<and>
   estado (obtenerEstado (snd (procesarMensaje entornoEjemplo ''abuela'' ''bc hola''
                    (Conversacion ''bc hola'') mundoEjemplo)) ''abuela'') = MENU_PRINCIPAL"
  by (simp add: entornoEjemplo_def mundoEjemplo_def evalBot evalTexto)

subsection \<open>The states\<close>

text \<open>
  C6, as amended. In state \<open>REGISTRO_ID\<close>, for a message that is not the first of
  the day, is not the menu keyword and does not begin with a broadcast command, and whose
  lookup (when it is made) returns: a message that is not exactly 13 digits is answered
  with the format text, and a 13-digit message that matches no row with the
  not-registered text, the conversation states staying as they were; a 13-digit message
  that matches a row is answered with the name found, and the state of the user becomes
  \<open>REGISTRO_PIN\<close> carrying the message as \<open>idEstudiante\<close>.
\<close>

theorem registro_id_transicion:
  assumes "estado (obtenerEstado w u) = REGISTRO_ID"
    and "obtenerUltimoSaludo w u = Some (fechaHoy env)"
    and "\<not> startsWith (toLowerCase mensaje) ''broadcast ''"
    and "\<not> startsWith (toLowerCase mensaje) ''bc ''"
    and "toLowerCase mensaje \<noteq> ''menu''"
    and "toLowerCase mensaje \<noteq> menuConAcento"
    and "esIdentidad mensaje \<Longrightarrow>
           buscarEstudiante (configuracion env) (libroExcel env) mensaje = Inr r"
  shows "\<exists>w'. procesarMensaje env u mensaje c w = (None, w') \<and>
           enviados w' = enviados w @
             [(u, if \<not> esIdentidad mensaje then FormatoIncorrecto
                  else case r of None \<Rightarrow> IdentidadNoRegistrada
                       | Some e \<Rightarrow> IdentidadEncontrada (nombre e))] \<and>
           estados w' =
             (if esIdentidad mensaje \<and> r \<noteq> None
              then (estados w)(u \<mapsto> \<lparr>estado = REGISTRO_PIN,
                      datos = \<lparr>idEstudiante = Some mensaje, alumnos = None\<rparr>\<rparr>)
              else estados w)"
proof (cases "esIdentidad mensaje")
  case False
  with assms(1-6) show ?thesis
    by (simp add: procesarMensaje_def Let_def enRegistroId_def enviar_def)
next
  case True
  with assms(7) have b: "buscar env mensaje w = (Inr r, w)" by (simp add: buscar_def)
  from True assms(1-6) b show ?thesis
    by (cases r)
       (simp_all add: procesarMensaje_def Let_def enRegistroId_def enviar_def
          establecerEstado_def)
qed

text \<open>The scenario of C6: a string of 12 digits is rejected and the state stays.\<close>

theorem registro_id_transicion_witness:
  "estado (obtenerEstado mundoEjemplo ''padre'') = REGISTRO_ID \<and>
   obtenerUltimoSaludo mundoEjemplo ''padre'' = Some (fechaHoy entornoEjemplo) \<and>
   \<not> startsWith (toLowerCase ''080120101234'') ''broadcast '' \<and>
   \<not> startsWith (toLowerCase ''080120101234'') ''bc '' \<and>
   toLowerCase ''080120101234'' \<noteq> ''menu'' \<and>
   toLowerCase ''080120101234'' \<noteq> menuConAcento \<and>
   \<not> esIdentidad ''080120101234'' \<and>
   (\<exists>w'. procesarMensaje entornoEjemplo ''padre'' ''080120101234''
            (Conversacion ''080120101234'') mundoEjemplo = (None, w') \<and>
         enviados w' = enviados mundoEjemplo @ [(''padre'', FormatoIncorrecto)] \<and>
         estados w' = estados mundoEjemplo)"
proof -
  have h1: "estado (obtenerEstado mundoEjemplo ''padre'') = REGISTRO_ID"
    by (simp add: obtenerEstado_def mundoEjemplo_def)
  have h2: "obtenerUltimoSaludo mundoEjemplo ''padre'' = Some (fechaHoy entornoEjemplo)"
    by (simp add: obtenerUltimoSaludo_def mundoEjemplo_def entornoEjemplo_def)
  have h3: "\<not> startsWith (toLowerCase ''080120101234'') ''broadcast ''"
    and h4: "\<not> startsWith (toLowerCase ''080120101234'') ''bc ''"
    and h5: "toLowerCase ''080120101234'' \<noteq> ''menu''"
    and h6: "toLowerCase ''080120101234'' \<noteq> menuConAcento"
    by (simp_all add: evalTexto menuConAcento_def)
  have h7: "\<not> esIdentidad ''080120101234''" by (simp add: esIdentidad_def)
  from h7 have h8: "esIdentidad ''080120101234'' \<Longrightarrow>
      buscarEstudiante (configuracion entornoEjemplo) (libroExcel entornoEjemplo)
        ''080120101234'' = Inr None"
    by simp
  from registro_id_transicion [OF h1 h2 h3 h4 h5 h6 h8, of "Conversacion ''080120101234''"]
    h1 h2 h3 h4 h5 h6 h7
  show ?thesis by simp
qed

text \<open>
  C6 as stated fails for a message that a hook takes: in state \<open>REGISTRO_ID\<close> the
  message \<open>menu\<close>, which is not 13 digits, is answered with the menu and the state
  becomes \<open>MENU_PRINCIPAL\<close>.
\<close>

theorem registro_id_menu_counterexample:
  "estado (obtenerEstado mundoEjemplo ''padre'') = REGISTRO_ID \<and>
   \<not> esIdentidad ''menu'' \<and>
   fst (procesarMensaje entornoEjemplo ''padre'' ''menu'' (Conversacion ''menu'')
          mundoEjemplo) = None \<and>
   enviados (snd (procesarMensaje entornoEjemplo ''padre'' ''menu'' (Conversacion ''menu'')
                    mundoEjemplo)) = [(''padre'', Menu 0 False)] \<and>
   estado (obtenerEstado (snd (procesarMensaje entornoEjemplo ''padre'' ''menu''
                    (Conversacion ''menu'') mundoEjemplo)) ''padre'') = MENU_PRINCIPAL"
  by (simp add: entornoEjemplo_def mundoEjemplo_def evalBot evalTexto)

text \<open>
  C10. In state \<open>ELIMINAR_ALUMNO\<close>, for a message that reaches the branch of the state
  and reads as a valid 1-based index into the list the state carries, when the identity
  number at that index has no row in the ledger and is linked to the user: the link is
  removed and then the handling throws a \<open>TypeError\<close> (the name of \<open>null\<close>).
  Nothing is sent, nothing is scheduled, the state stays, and the removal stays.
\<close>

theorem eliminar_alumno_sin_fila:
  assumes "estado (obtenerEstado w u) = ELIMINAR_ALUMNO"
    and "alumnos (datos (obtenerEstado w u)) = Some l"
    and "obtenerUltimoSaludo w u = Some (fechaHoy env)"
    and "\<not> startsWith (toLowerCase mensaje) ''broadcast ''"
    and "\<not> startsWith (toLowerCase mensaje) ''bc ''"
    and "toLowerCase mensaje \<noteq> ''menu''"
    and "toLowerCase mensaje \<noteq> menuConAcento"
    and "parseInt10 mensaje = Some n" and "1 \<le> n" and "n \<le> int (length l)"
    and "buscarEstudiante (configuracion env) (libroExcel env) (l ! nat (n - 1)) = Inr None"
    and "l ! nat (n - 1) \<in> set (obtenerAlumnosEncargado w u)"
  shows "procesarMensaje env u mensaje c w =
           (Some TypeError,
            w\<lparr>encargados :=
                 AList.update u (removeAll (l ! nat (n - 1)) (obtenerAlumnosEncargado w u))
                   (encargados w)\<rparr>)"
proof -
  have el: "elegirAlumno (obtenerEstado w u) mensaje = Inr (Some (l ! nat (n - 1)))"
    using assms(2,8,9,10) by (simp add: elegirAlumno_def)
  have b: "buscar env (l ! nat (n - 1)) w = (Inr None, w)"
    using assms(11) by (simp add: buscar_def)
  have e: "eliminarRelacion u (l ! nat (n - 1)) w =
             (True, w\<lparr>encargados :=
                 AList.update u (removeAll (l ! nat (n - 1)) (obtenerAlumnosEncargado w u))
                   (encargados w)\<rparr>)"
    using assms(12) by (simp add: eliminarRelacion_def Let_def)
  show ?thesis
    using assms(1,3-7)
    by (simp add: procesarMensaje_def Let_def enEliminarAlumno_def el b e)
qed

theorem eliminar_alumno_sin_fila_witness:
  "estado (obtenerEstado mundoEjemplo ''madre'') = ELIMINAR_ALUMNO \<and>
   alumnos (datos (obtenerEstado mundoEjemplo ''madre'')) =
     Some [''0801201099999'', ''0801201000000''] \<and>
   obtenerUltimoSaludo mundoEjemplo ''madre'' = Some (fechaHoy entornoEjemplo) \<and>
   parseInt10 ''2'' = Some 2 \<and>
   buscarEstudiante (configuracion entornoEjemplo) (libroExcel entornoEjemplo)
     ''0801201000000'' = Inr None \<and>
   obtenerAlumnosEncargado mundoEjemplo ''madre'' = [''0801201099999'', ''0801201000000''] \<and>
   procesarMensaje entornoEjemplo ''madre'' ''2'' (Conversacion ''2'') mundoEjemplo =
     (Some TypeError,
      mundoEjemplo\<lparr>encargados :=
        [(''madre'', [''0801201099999'']), (''abuela'', [''0801201012345''])]\<rparr>)"
proof -
  let ?l = "[''0801201099999'', ''0801201000000'']"
  have h1: "estado (obtenerEstado mundoEjemplo ''madre'') = ELIMINAR_ALUMNO"
    and h2: "alumnos (datos (obtenerEstado mundoEjemplo ''madre'')) = Some ?l"
    by (simp_all add: obtenerEstado_def mundoEjemplo_def)
  have h3: "obtenerUltimoSaludo mundoEjemplo ''madre'' = Some (fechaHoy entornoEjemplo)"
    by (simp add: obtenerUltimoSaludo_def mundoEjemplo_def entornoEjemplo_def)
  have h4: "\<not> startsWith (toLowerCase ''2'') ''broadcast ''"
    and h5: "\<not> startsWith (toLowerCase ''2'') ''bc ''"
    and h6: "toLowerCase ''2'' \<noteq> ''menu''"
    and h7: "toLowerCase ''2'' \<noteq> menuConAcento"
    by (simp_all add: evalTexto menuConAcento_def)
  have h8: "parseInt10 ''2'' = Some 2"
    by (simp add: parseInt10_def signo_def valorDigitos_def evalTexto)
  have h9: "(1::int) \<le> 2" and h10: "(2::int) \<le> int (length ?l)" by simp_all
  have nth: "?l ! nat (2 - 1) = ''0801201000000''" by simp
  have h11: "buscarEstudiante (configuracion entornoEjemplo) (libroExcel entornoEjemplo)
               (?l ! nat (2 - 1)) = Inr None"
    unfolding nth
    by (simp add: entornoEjemplo_def libroRepetido_def hojaRepetida_def columnasEjemplo_def
        evalLibro)
  have al: "obtenerAlumnosEncargado mundoEjemplo ''madre'' = ?l"
    by (simp add: obtenerAlumnosEncargado_def mundoEjemplo_def)
  have h12: "?l ! nat (2 - 1) \<in> set (obtenerAlumnosEncargado mundoEjemplo ''madre'')"
    unfolding nth al by simp
  have upd: "AList.update ''madre'' (removeAll (?l ! nat (2 - 1)) ?l) (encargados mundoEjemplo) =
             [(''madre'', [''0801201099999'']), (''abuela'', [''0801201012345''])]"
    by (simp add: mundoEjemplo_def)
  from eliminar_alumno_sin_fila [OF h1 h2 h3 h4 h5 h6 h7 h8 h9 h10 h11 h12,
      of "Conversacion ''2''"]
  have "procesarMensaje entornoEjemplo ''madre'' ''2'' (Conversacion ''2'') mundoEjemplo =
     (Some TypeError,
      mundoEjemplo\<lparr>encargados :=
        [(''madre'', [''0801201099999'']), (''abuela'', [''0801201012345''])]\<rparr>)"
    by (simp only: al upd)
  with h1 h2 h3 h8 h11 al nth show ?thesis by simp
qed

subsection \<open>Errors\<close>

text \<open>
  C9, as amended. The handler of \<open>messages.upsert\<close> adds nothing to
  \<open>procesarMensaje\<close>: for a message with a text, its outcome (the error thrown, if
  any, and the world) is the outcome of \<open>procesarMensaje\<close>, so an error goes through
  uncaught. Whatever the outcome, the conversation state of every other user is as it
  was.
\<close>

theorem alRecibir_sin_captura:
  assumes "message m = Some c" and "\<not> fromMe m" and "textoDe c \<noteq> []"
    and "u' \<noteq> remoteJid m"
  shows "alRecibir env (m # rest) w = procesarMensaje env (remoteJid m) (textoDe c) c w \<and>
         conversacion (snd (alRecibir env (m # rest) w)) u' = conversacion w u'"
  using assms by (simp add: alRecibir_def procesarMensaje_otros)

theorem alRecibir_sin_captura_witness:
  "message mensajeDePadre = Some (Conversacion ''0801201012345'') \<and>
   \<not> fromMe mensajeDePadre \<and> textoDe (Conversacion ''0801201012345'') \<noteq> [] \<and>
   ''madre'' \<noteq> remoteJid mensajeDePadre \<and>
   alRecibir entornoCaido [mensajeDePadre] mundoEjemplo =
     procesarMensaje entornoCaido (remoteJid mensajeDePadre)
       (textoDe (Conversacion ''0801201012345'')) (Conversacion ''0801201012345'') mundoEjemplo \<and>
   conversacion (snd (alRecibir entornoCaido [mensajeDePadre] mundoEjemplo)) ''madre'' =
     conversacion mundoEjemplo ''madre''"
proof -
  have h1: "message mensajeDePadre = Some (Conversacion ''0801201012345'')"
    and h2: "\<not> fromMe mensajeDePadre"
    and h4: "''madre'' \<noteq> remoteJid mensajeDePadre"
    by (simp_all add: mensajeDePadre_def)
  have h3: "textoDe (Conversacion ''0801201012345'') \<noteq> []"
    by (simp add: textoDe_def evalTexto)
  from alRecibir_sin_captura [OF h1 h2 h3 h4, of entornoCaido "[]" mundoEjemplo] h1 h2 h3 h4
  show ?thesis by blast
qed

text \<open>
  C9 as stated fails: with the download of the workbook failing, a 13-digit message in
  state \<open>REGISTRO_ID\<close> makes \<open>buscarEstudiante\<close> throw; its own \<open>catch\<close> logs
  the error and throws it again, and the handler throws it on.
\<close>

theorem alRecibir_error_counterexample:
  "fst (alRecibir entornoCaido [mensajeDePadre] mundoEjemplo) = Some DownloadError \<and>
   registro (snd (alRecibir entornoCaido [mensajeDePadre] mundoEjemplo)) = [DownloadError] \<and>
   enviados (snd (alRecibir entornoCaido [mensajeDePadre] mundoEjemplo)) = []"
  by (simp add: entornoCaido_def entornoEjemplo_def mensajeDePadre_def mundoEjemplo_def
      evalBot evalLibro evalTexto)

section \<open>Properties of the content cache\<close>

lemma refreshDropboxToken_marco:
  "refreshDropboxToken srv st = (r, st') \<Longrightarrow>
     archivos st' = archivos st \<and> metas st' = metas st \<and>
     completadas st' = completadas st \<and> descargas st' = descargas st"
  by (auto simp: refreshDropboxToken_def Let_def split: option.splits)

lemma getDropboxClient_marco:
  "getDropboxClient srv st = (r, st') \<Longrightarrow>
     archivos st' = archivos st \<and> metas st' = metas st \<and>
     completadas st' = completadas st \<and> descargas st' = descargas st"
  by (auto simp: getDropboxClient_def Let_def
      split: if_splits prod.splits sum.splits option.splits
      dest!: refreshDropboxToken_marco)

lemma revisionRemota_marco:
  "revisionRemota srv st = (r, st') \<Longrightarrow>
     archivos st' = archivos st \<and> metas st' = metas st \<and>
     completadas st' = completadas st \<and> descargas st' = descargas st"
  by (auto simp: revisionRemota_def split: prod.splits sum.splits dest!: getDropboxClient_marco)

lemma revisarCache_marco:
  "revisarCache srv p st = (b, st') \<Longrightarrow>
     archivos st' = archivos st \<and> metas st' = metas st \<and>
     completadas st' = completadas st \<and> descargas st' = descargas st"
  by (auto simp: revisarCache_def
      split: prod.splits sum.splits option.splits metaArchivo.splits
      dest!: revisionRemota_marco)

lemma getDropboxClient_estable:
  assumes "getDropboxClient srv st = (Inr d, st')" and "\<forall>k. respuestaToken srv k \<noteq> Some []"
  shows "getDropboxClient srv (st'\<lparr>consultas := c\<rparr>) =
           (Inr (dropboxInstance st'), st'\<lparr>consultas := c\<rparr>)"
  using assms
  by (auto simp: getDropboxClient_def refreshDropboxToken_def sinToken_def Let_def
      split: if_splits option.splits)

lemma intentar_resultado:
  "intentar srv dsk p k le st = (res, st') \<Longrightarrow> trasIntento srv dsk p st res st'"
proof (induction k arbitrary: le st)
  case 0
  then show ?case by (auto simp: trasIntento_def)
next
  case (Suc k)
  obtain r1 st1 where c: "getDropboxClient srv st = (r1, st1)"
    by (cases "getDropboxClient srv st")
  note m1 = getDropboxClient_marco [OF c]
  show ?case
  proof (cases r1)
    case (Inl err)
    show ?thesis
    proof (cases "esTokenExpirado err")
      case False
      with Suc.prems c Inl m1 show ?thesis by (auto simp: trasIntento_def)
    next
      case True
      obtain r4 st4
        where f: "refreshDropboxToken srv (st1\<lparr>dropboxInstance := None, accessToken := None\<rparr>) =
                    (r4, st4)"
        by (cases "refreshDropboxToken srv (st1\<lparr>dropboxInstance := None, accessToken := None\<rparr>)")
      note m4 = refreshDropboxToken_marco [OF f]
      show ?thesis
      proof (cases r4)
        case (Inl err2)
        with Suc.prems c \<open>r1 = Inl err\<close> True f m1 m4 show ?thesis
          by (auto simp: trasIntento_def)
      next
        case (Inr tok)
        with Suc.prems c \<open>r1 = Inl err\<close> True f
        have "intentar srv dsk p k (Some err) st4 = (res, st')" by simp
        from Suc.IH [OF this] m1 m4 show ?thesis
          by (cases res) (auto simp: trasIntento_def split: sum.splits prod.splits)
      qed
    qed
  next
    case (Inr dbx)
    let ?k = "descargas st1"
    let ?st2 = "st1\<lparr>descargas := ?k + 1\<rparr>"
    let ?st3 = "?st2\<lparr>completadas := completadas ?st2 + 1\<rparr>"
    show ?thesis
    proof (cases "respuestaDescarga srv ?k")
      case (Inr resp)
      obtain bin rv where resp: "resp = (bin, rv)" by (cases resp)
      have r: "respuestaDescarga srv ?k = Inr (bin, rv)" using Inr resp by simp
      show ?thesis
      proof (cases "escrituraArchivo dsk ?k")
        case (Fallo queda)
        with Suc.prems c \<open>r1 = Inr dbx\<close> r
        have "res = Inl WriteError"
          and "st' = ?st3\<lparr>archivos := (archivos ?st3)(p := queda)\<rparr>"
          by (simp_all add: Let_def esTokenExpirado_def)
        with Fallo m1 show ?thesis by (simp add: trasIntento_def)
      next
        case Escrito
        let ?st4 = "?st3\<lparr>archivos := (archivos ?st3)(p \<mapsto> bin)\<rparr>"
        show ?thesis
        proof (cases "escrituraMeta dsk ?k")
          case (Fallo queda)
          with Suc.prems c \<open>r1 = Inr dbx\<close> r Escrito
          have "res = Inl WriteError"
            and "st' = ?st4\<lparr>metas := (metas ?st4)(p := queda)\<rparr>"
            by (simp_all add: Let_def esTokenExpirado_def)
          with Fallo m1 show ?thesis by (simp add: trasIntento_def)
        next
          case Escrito
          with Suc.prems c \<open>r1 = Inr dbx\<close> r \<open>escrituraArchivo dsk ?k = Escrito\<close>
          have "res = Inr (rutaCache p)"
            and "st' = ?st4\<lparr>metas := (metas ?st4)(p \<mapsto> Meta rv)\<rparr>"
            by (simp_all add: Let_def)
          with r m1 show ?thesis by (simp add: trasIntento_def)
        qed
      qed
    next
      case (Inl err)
      show ?thesis
      proof (cases "esTokenExpirado err")
        case False
        with Suc.prems c \<open>r1 = Inr dbx\<close> Inl m1 show ?thesis
          by (auto simp: trasIntento_def Let_def)
      next
        case True
        obtain r4 st4
          where f: "refreshDropboxToken srv (?st2\<lparr>dropboxInstance := None, accessToken := None\<rparr>) =
                      (r4, st4)"
          by (cases "refreshDropboxToken srv (?st2\<lparr>dropboxInstance := None, accessToken := None\<rparr>)")
        note m4 = refreshDropboxToken_marco [OF f]
        show ?thesis
        proof (cases r4)
          case (Inl err2)
          with Suc.prems c \<open>r1 = Inr dbx\<close> \<open>respuestaDescarga srv ?k = Inl err\<close>
            True f m1 m4 show ?thesis
            by (auto simp: trasIntento_def Let_def)
        next
          case (Inr tok)
          with Suc.prems c \<open>r1 = Inr dbx\<close> \<open>respuestaDescarga srv ?k = Inl err\<close>
            True f
          have "intentar srv dsk p k (Some err) st4 = (res, st')" by (simp add: Let_def)
          from Suc.IH [OF this] m1 m4 show ?thesis
            by (cases res) (auto simp: trasIntento_def split: sum.splits prod.splits)
        qed
      qed
    qed
  qed
qed

lemma intentar_una_descarga:
  assumes "getDropboxClient srv st = (Inr d, st)"
    and "respuestaDescarga srv (descargas st) = Inr (bin, rv)"
    and "escrituraArchivo dsk (descargas st) = Escrito"
    and "escrituraMeta dsk (descargas st) = Escrito"
  shows "intentar srv dsk p (Suc k) le st =
           (Inr (rutaCache p),
            st\<lparr>descargas := descargas st + 1, completadas := completadas st + 1,
               archivos := (archivos st)(p \<mapsto> bin), metas := (metas st)(p \<mapsto> Meta rv)\<rparr>)"
  using assms by (simp add: Let_def)

lemma trasIntento_marco:
  assumes "archivos st1 = archivos st" and "metas st1 = metas st"
    and "completadas st1 = completadas st"
  shows "trasIntento srv dsk p st1 res st' = trasIntento srv dsk p st res st'"
  using assms by (cases res) (auto simp: trasIntento_def split: sum.splits prod.splits)

lemma downloadWithRetry_resultado:
  assumes "downloadWithRetry srv dsk opts p st = (res, st')"
  shows "(servidoDeCache p st res st' \<and> archivos st p \<noteq> None \<and>
          (\<exists>rev0. metas st p = Some (Meta rev0))) \<or>
         trasIntento srv dsk p st res st'"
proof (cases "useCache opts \<and> \<not> forceRefresh opts \<and>
              archivos st p \<noteq> None \<and> metas st p \<noteq> None")
  case False
  with assms have "intentar srv dsk p (maxRetries opts) None st = (res, st')"
    by (auto simp: downloadWithRetry_def)
  then show ?thesis using intentar_resultado by blast
next
  case True
  obtain b st1 where r: "revisarCache srv p st = (b, st1)"
    by (cases "revisarCache srv p st")
  note m = revisarCache_marco [OF r]
  show ?thesis
  proof (cases b)
    case True
    with r have "\<exists>rev0. metas st p = Some (Meta rev0)"
      by (auto simp: revisarCache_def split: option.splits metaArchivo.splits)
    moreover from \<open>b\<close> r assms \<open>useCache opts \<and> _\<close> have "res = Inr (rutaCache p)" "st' = st1"
      by (auto simp: downloadWithRetry_def)
    ultimately show ?thesis
      using m \<open>useCache opts \<and> _\<close> by (simp add: servidoDeCache_def)
  next
    case False
    with r assms \<open>useCache opts \<and> _\<close>
    have "intentar srv dsk p (maxRetries opts) None st1 = (res, st')"
      by (auto simp: downloadWithRetry_def)
    then have "trasIntento srv dsk p st1 res st'" by (rule intentar_resultado)
    then show ?thesis using m trasIntento_marco [of st1 st] by simp
  qed
qed

lemma sin_descarga_cache_intacta:
  assumes "downloadWithRetry srv dsk opts p st = (res, st')"
    and "completadas st' = completadas st"
  shows "archivos st' = archivos st \<and> metas st' = metas st"
  using downloadWithRetry_resultado [OF assms(1)] assms(2)
  by (auto simp: servidoDeCache_def trasIntento_def split: sum.splits)

lemma exito_deja_cache:
  assumes "downloadWithRetry srv dsk opts p st = (Inr ruta, st')"
  shows "archivos st' p \<noteq> None \<and> (\<exists>rev0. metas st' p = Some (Meta rev0))"
  using downloadWithRetry_resultado [OF assms]
  by (auto simp: servidoDeCache_def trasIntento_def split: sum.splits prod.splits)

lemmas evalCache = refreshDropboxToken_def sinToken_def getDropboxClient_def
  revisionRemota_def revisarCache_def esTokenExpirado_def downloadWithRetry_def
  opcionesPorDefecto_def rutaCache_def servidoDeCache_def trasIntento_def unaDescarga_def
  Let_def

lemma revisionRemota_exito:
  "revisionRemota srv st = (Inr rv0, st') \<Longrightarrow>
     \<exists>d stg. getDropboxClient srv st = (Inr d, stg) \<and> st' = stg\<lparr>consultas := consultas stg + 1\<rparr>"
  by (auto simp: revisionRemota_def split: prod.splits sum.splits)

lemma intentar_tras_revision:
  assumes rr: "revisionRemota srv st = (Inr rv0, st')"
    and tokens: "\<forall>k. respuestaToken srv k \<noteq> Some []"
    and resp: "respuestaDescarga srv (descargas st) = Inr (bin, rv)"
    and esc: "escrituraArchivo dsk (descargas st) = Escrito"
             "escrituraMeta dsk (descargas st) = Escrito"
  shows "unaDescarga p bin rv st (fst (intentar srv dsk p (Suc k) le st'))
           (snd (intentar srv dsk p (Suc k) le st'))"
proof -
  from revisionRemota_exito [OF rr] obtain d stg
    where g: "getDropboxClient srv st = (Inr d, stg)"
      and st': "st' = stg\<lparr>consultas := consultas stg + 1\<rparr>"
    by blast
  note m = getDropboxClient_marco [OF g]
  have g': "getDropboxClient srv st' = (Inr (dropboxInstance stg), st')"
    unfolding st' by (rule getDropboxClient_estable [OF g tokens])
  have d: "descargas st' = descargas st" using m st' by simp
  from intentar_una_descarga [OF g', of bin rv dsk p k le] resp esc d m st'
  show ?thesis by (simp add: unaDescarga_def)
qed

text \<open>
  C8 as stated fails: the blob and its fingerprint are not persisted together. They are
  written by two calls of \<open>fs.writeFileSync\<close>, one after the other, and an error of
  the second is caught and thrown again with the first already done. On a disk where the
  write of the \<open>.meta\<close> file fails, a call that finds a changed revision and
  downloads the new file throws, and leaves the new blob in the cache with the old
  fingerprint.
\<close>

theorem cache_escritura_partida_counterexample:
  "downloadWithRetry servidorCambiado discoLleno opcionesPorDefecto ''/cuentas.xlsx''
     estadoConCache =
     (Inl WriteError,
      estadoConCache\<lparr>archivos := [''/cuentas.xlsx'' \<mapsto> ''bytes-2''],
                     consultas := 1, descargas := 2, completadas := 2\<rparr>) \<and>
   archivos estadoConCache ''/cuentas.xlsx'' = Some ''bytes-1'' \<and>
   metas estadoConCache ''/cuentas.xlsx'' = Some (Meta ''rev-1'') \<and>
   respuestaDescarga servidorCambiado 1 = Inr (''bytes-2'', ''rev-2'')"
proof -
  have n3: "(3::nat) = Suc (Suc (Suc 0))" by simp
  show ?thesis
    by (simp add: servidorCambiado_def servidorEjemplo_def discoLleno_def estadoConCache_def
        evalCache n3)
qed

text \<open>
  C8, as amended. After a call of \<open>downloadWithRetry\<close> that returned, the cache holds
  the blob of the path and a readable fingerprint. For a second call on the same path
  with the cache enabled and no forced refresh, whose metadata query answers with a
  revision: when the revision equals the stored fingerprint, the cached file is served,
  no download is started and the cache entry stays. When it differs, the call either
  returns after exactly one completed download, with the blob and the fingerprint of
  that response stored, or throws with no download completed and the cache entry as it
  was, or throws after one completed download because the write of the blob or of the
  fingerprint failed (the two are written one after the other, not together); and when
  at least one attempt is allowed, the server issues no empty token, the next download
  is answered with the file and the two writes that follow it succeed, the call returns
  after exactly one download, started and completed, with the blob and the fingerprint
  of that response stored. And for every call on the path: when no download completes
  (every attempt fails), the blob and the fingerprint are left as they were.
\<close>

theorem cache_por_revision:
  assumes primera: "downloadWithRetry srv1 dsk1 opts1 p st0 = (Inr ruta1, st1)"
    and opts: "useCache opts" "\<not> forceRefresh opts"
    and remota: "fst (revisionRemota srv st1) = Inr revision"
    and segunda: "downloadWithRetry srv dsk opts p st1 = (res, st2)"
  shows "\<exists>rev0. metas st1 p = Some (Meta rev0) \<and> archivos st1 p \<noteq> None \<and>
           (if revision = rev0 then servidoDeCache p st1 res st2
            else trasIntento srv dsk p st1 res st2 \<and>
                 (0 < maxRetries opts \<and> (\<forall>k. respuestaToken srv k \<noteq> Some []) \<and>
                  respuestaDescarga srv (descargas st1) = Inr (bin, rv) \<and>
                  escrituraArchivo dsk (descargas st1) = Escrito \<and>
                  escrituraMeta dsk (descargas st1) = Escrito \<longrightarrow>
                  unaDescarga p bin rv st1 res st2)) \<and>
           (\<forall>srv' dsk' opts' st res' st'.
              downloadWithRetry srv' dsk' opts' p st = (res', st') \<and>
              completadas st' = completadas st \<longrightarrow>
              archivos st' = archivos st \<and> metas st' = metas st)"
proof -
  from exito_deja_cache [OF primera] obtain rev0
    where files: "archivos st1 p \<noteq> None" and meta: "metas st1 p = Some (Meta rev0)"
    by blast
  obtain r st1' where rr: "revisionRemota srv st1 = (r, st1')"
    by (cases "revisionRemota srv st1")
  with remota have r: "r = Inr revision" by simp
  note m = revisionRemota_marco [OF rr]
  have rc: "revisarCache srv p st1 = (revision = rev0, st1')"
    using meta rr r by (simp add: revisarCache_def)
  have "if revision = rev0 then servidoDeCache p st1 res st2
        else trasIntento srv dsk p st1 res st2 \<and>
             (0 < maxRetries opts \<and> (\<forall>k. respuestaToken srv k \<noteq> Some []) \<and>
              respuestaDescarga srv (descargas st1) = Inr (bin, rv) \<and>
              escrituraArchivo dsk (descargas st1) = Escrito \<and>
              escrituraMeta dsk (descargas st1) = Escrito \<longrightarrow>
              unaDescarga p bin rv st1 res st2)"
  proof (cases "revision = rev0")
    case True
    with segunda opts files meta rc have "res = Inr (rutaCache p)" "st2 = st1'"
      by (auto simp: downloadWithRetry_def)
    with True m show ?thesis by (simp add: servidoDeCache_def)
  next
    case False
    with segunda opts files meta rc
    have i: "intentar srv dsk p (maxRetries opts) None st1' = (res, st2)"
      by (auto simp: downloadWithRetry_def)
    then have "trasIntento srv dsk p st1' res st2" by (rule intentar_resultado)
    with m trasIntento_marco [of st1' st1] have t: "trasIntento srv dsk p st1 res st2" by simp
    have "unaDescarga p bin rv st1 res st2"
      if h: "0 < maxRetries opts" "\<forall>k. respuestaToken srv k \<noteq> Some []"
        "respuestaDescarga srv (descargas st1) = Inr (bin, rv)"
        "escrituraArchivo dsk (descargas st1) = Escrito"
        "escrituraMeta dsk (descargas st1) = Escrito"
    proof -
      from h(1) obtain k where k: "maxRetries opts = Suc k" by (cases "maxRetries opts") auto
      from rr r have "revisionRemota srv st1 = (Inr revision, st1')" by simp
      from intentar_tras_revision [OF this h(2) h(3) h(4) h(5), of p k None] i k
      show ?thesis by simp
    qed
    with False t show ?thesis by simp
  qed
  with files meta sin_descarga_cache_intacta show ?thesis by blast
qed

theorem cache_por_revision_witness:
  "downloadWithRetry servidorEjemplo discoEjemplo opcionesPorDefecto ''/cuentas.xlsx''
     estadoInicial = (Inr (rutaCache ''/cuentas.xlsx''), estadoConCache) \<and>
   useCache opcionesPorDefecto \<and> \<not> forceRefresh opcionesPorDefecto \<and>
   metas estadoConCache ''/cuentas.xlsx'' = Some (Meta ''rev-1'') \<and>
   fst (revisionRemota servidorEjemplo estadoConCache) = Inr ''rev-1'' \<and>
   servidoDeCache ''/cuentas.xlsx'' estadoConCache
     (fst (downloadWithRetry servidorEjemplo discoEjemplo opcionesPorDefecto ''/cuentas.xlsx''
        estadoConCache))
     (snd (downloadWithRetry servidorEjemplo discoEjemplo opcionesPorDefecto ''/cuentas.xlsx''
        estadoConCache)) \<and>
   fst (revisionRemota servidorCambiado estadoConCache) = Inr ''rev-2'' \<and>
   0 < maxRetries opcionesPorDefecto \<and>
   (\<forall>k. respuestaToken servidorCambiado k \<noteq> Some []) \<and>
   respuestaDescarga servidorCambiado (descargas estadoConCache) = Inr (''bytes-2'', ''rev-2'') \<and>
   escrituraArchivo discoEjemplo (descargas estadoConCache) = Escrito \<and>
   escrituraMeta discoEjemplo (descargas estadoConCache) = Escrito \<and>
   unaDescarga ''/cuentas.xlsx'' ''bytes-2'' ''rev-2'' estadoConCache
     (fst (downloadWithRetry servidorCambiado discoEjemplo opcionesPorDefecto ''/cuentas.xlsx''
        estadoConCache))
     (snd (downloadWithRetry servidorCambiado discoEjemplo opcionesPorDefecto ''/cuentas.xlsx''
        estadoConCache))"
proof -
  let ?p = "''/cuentas.xlsx''"
  let ?igual = "downloadWithRetry servidorEjemplo discoEjemplo opcionesPorDefecto ?p estadoConCache"
  let ?distinta = "downloadWithRetry servidorCambiado discoEjemplo opcionesPorDefecto ?p estadoConCache"
  have n3: "(3::nat) = Suc (Suc (Suc 0))" by simp
  have h1: "downloadWithRetry servidorEjemplo discoEjemplo opcionesPorDefecto ?p estadoInicial =
              (Inr (rutaCache ?p), estadoConCache)"
    by (simp add: servidorEjemplo_def discoEjemplo_def estadoInicial_def estadoConCache_def
        evalCache n3)
  have h2: "useCache opcionesPorDefecto" and h3: "\<not> forceRefresh opcionesPorDefecto"
    by (simp_all add: opcionesPorDefecto_def)
  have h4: "fst (revisionRemota servidorEjemplo estadoConCache) = Inr ''rev-1''"
    by (simp add: servidorEjemplo_def estadoConCache_def evalCache)
  have h5: "?igual = (fst ?igual, snd ?igual)"
    by simp
  have h6: "fst (revisionRemota servidorCambiado estadoConCache) = Inr ''rev-2''"
    by (simp add: servidorCambiado_def servidorEjemplo_def estadoConCache_def evalCache)
  have h7: "?distinta = (fst ?distinta, snd ?distinta)"
    by simp
  have m: "metas estadoConCache ?p = Some (Meta ''rev-1'')"
    by (simp add: estadoConCache_def)
  have h8: "0 < maxRetries opcionesPorDefecto"
    "\<forall>k. respuestaToken servidorCambiado k \<noteq> Some []"
    "respuestaDescarga servidorCambiado (descargas estadoConCache) = Inr (''bytes-2'', ''rev-2'')"
    "escrituraArchivo discoEjemplo (descargas estadoConCache) = Escrito"
    "escrituraMeta discoEjemplo (descargas estadoConCache) = Escrito"
    by (simp_all add: opcionesPorDefecto_def servidorCambiado_def servidorEjemplo_def
        discoEjemplo_def)
  from cache_por_revision [OF h1 h2 h3 h4 h5] m
  have a: "servidoDeCache ?p estadoConCache (fst ?igual) (snd ?igual)"
    by auto
  from cache_por_revision [OF h1 h2 h3 h6 h7, of "''bytes-2''" "''rev-2''"] m h8
  have b: "unaDescarga ?p ''bytes-2'' ''rev-2'' estadoConCache (fst ?distinta) (snd ?distinta)"
    by auto
  from h1 h2 h3 h4 h6 h8 m a b show ?thesis by simp
qed
end
